theory Spec2Isabelle
  imports Main "HOL-Library.Sublist"
begin

section \<open>Python values used by \<open>main.py\<close>\<close>

text \<open>
  A Python \<open>str\<close> is a sequence of Unicode code points; it is modelled as a list of
  code points, so that \<open>in\<close>, \<open>startswith\<close>, \<open>split\<close> and \<open>strip\<close> count what Python
  counts. Literals of the source are written with \<open>ascii\<close> for their ASCII runs and
  with explicit code points for the accented letters and pictographs.
\<close>

type_synonym ustring = "nat list"

definition ascii :: "string \<Rightarrow> ustring" where
  "ascii s = map of_char s"

datatype error =
    AttributeError
  | IndexError
  | KeyError
  | TypeError
  | ValueError
  | OverflowError
  | ApiError ustring

subsection \<open>\<open>str\<close> operations\<close>

text \<open>\<open>sub in s\<close>: \<open>sub\<close> occurs in \<open>s\<close> as a contiguous run.\<close>

fun py_in :: "ustring \<Rightarrow> ustring \<Rightarrow> bool" where
  "py_in sub [] = (sub = [])"
| "py_in sub (c # cs) = (prefix sub (c # cs) \<or> py_in sub cs)"

text \<open>\<open>s.startswith(p)\<close>.\<close>

definition startswith :: "ustring \<Rightarrow> ustring \<Rightarrow> bool" where
  "startswith s p = prefix p s"

text \<open>
  \<open>s.split(sep)\<close> for a separator of one code point: every occurrence of the separator
  cuts, and the result always has at least one segment.
\<close>

fun py_split :: "nat \<Rightarrow> ustring \<Rightarrow> ustring list" where
  "py_split sep [] = [[]]"
| "py_split sep (c # cs) =
     (if c = sep then [] # py_split sep cs
      else (case py_split sep cs of
              [] \<Rightarrow> [[c]]
            | w # ws \<Rightarrow> (c # w) # ws))"

text \<open>\<open>xs[i]\<close> for a non-negative index \<open>i\<close>: \<open>IndexError\<close> out of range.\<close>

definition py_index :: "'a list \<Rightarrow> nat \<Rightarrow> error + 'a" where
  "py_index xs i = (if i < length xs then Inr (xs ! i) else Inl IndexError)"

text \<open>
  \<open>str.isspace\<close> of one code point: the code points Python treats as whitespace, which
  are the ones \<open>str.strip()\<close> removes.
\<close>

definition is_space :: "nat \<Rightarrow> bool" where
  "is_space c \<longleftrightarrow>
     (9 \<le> c \<and> c \<le> 13) \<or> (28 \<le> c \<and> c \<le> 32) \<or> c = 133 \<or> c = 160 \<or> c = 5760 \<or>
     (8192 \<le> c \<and> c \<le> 8202) \<or> c = 8232 \<or> c = 8233 \<or> c = 8239 \<or> c = 8287 \<or> c = 12288"

definition strip_with :: "(nat \<Rightarrow> bool) \<Rightarrow> ustring \<Rightarrow> ustring" where
  "strip_with sp s = rev (dropWhile sp (rev (dropWhile sp s)))"

definition py_strip :: "ustring \<Rightarrow> ustring" where
  "py_strip s = strip_with is_space s"

text \<open>\<open>" ".join(xs)\<close>.\<close>

fun join_space :: "ustring list \<Rightarrow> ustring" where
  "join_space [] = []"
| "join_space [x] = x"
| "join_space (x # y # ys) = x @ [32] @ join_space (y # ys)"

subsection \<open>\<open>str(int)\<close> and \<open>int(str)\<close>\<close>

fun py_str_nat :: "nat \<Rightarrow> ustring" where
  "py_str_nat n = (if n < 10 then [48 + n] else py_str_nat (n div 10) @ [48 + n mod 10])"

declare py_str_nat.simps [simp del]

text \<open>\<open>str(i)\<close>, also what \<open>f"{i}"\<close> inserts for an \<open>int\<close>.\<close>

definition py_str_int :: "int \<Rightarrow> ustring" where
  "py_str_int i = (if i < 0 then 45 # py_str_nat (nat (- i)) else py_str_nat (nat i))"

text \<open>
  \<open>int(s)\<close> reads, in base ten: whitespace, an optional sign, decimal digits with
  single underscores allowed between them, whitespace. The digits are those of any script
  (Unicode category Nd, version 14): each script's digits are ten consecutive code points,
  listed here by their zero. The whitespace is \<open>str.isspace\<close>, except that the four
  ASCII separators 28 to 31 are not skipped. Callback data are at most 64 bytes long, so
  the interpreter's limit on the number of digits converted is never reached.
\<close>

definition decimal_zeros :: "nat list" where
  "decimal_zeros =
     [48, 1632, 1776, 1984, 2406, 2534, 2662, 2790, 2918, 3046, 3174, 3302, 3430, 3558,
      3664, 3792, 3872, 4160, 4240, 6112, 6160, 6470, 6608, 6784, 6800, 6992, 7088, 7232,
      7248, 42528, 43216, 43264, 43472, 43504, 43600, 44016, 65296, 66720, 68912, 69734,
      69872, 69942, 70096, 70384, 70736, 70864, 71248, 71360, 71472, 71904, 72016, 72784,
      73040, 73120, 92768, 92864, 93008, 120782, 120792, 120802, 120812, 120822, 123200,
      123632, 125264, 130032]"

definition decimal_value :: "nat \<Rightarrow> nat option" where
  "decimal_value c =
     (case find (\<lambda>z. z \<le> c \<and> c < z + 10) decimal_zeros of
        None \<Rightarrow> None
      | Some z \<Rightarrow> Some (c - z))"

definition int_space :: "nat \<Rightarrow> bool" where
  "int_space c \<longleftrightarrow> is_space c \<and> \<not> (28 \<le> c \<and> c \<le> 31)"

fun int_digits :: "ustring \<Rightarrow> nat \<Rightarrow> nat option" where
  "int_digits [] acc = None"
| "int_digits (c # cs) acc =
     (case decimal_value c of
        None \<Rightarrow> None
      | Some d \<Rightarrow>
          (case cs of
             [] \<Rightarrow> Some (10 * acc + d)
           | c' # cs' \<Rightarrow>
               if c' = 95 then int_digits cs' (10 * acc + d)
               else int_digits cs (10 * acc + d)))"

definition py_int :: "ustring \<Rightarrow> error + int" where
  "py_int s =
     (let t = strip_with int_space s;
          neg = (case t of [] \<Rightarrow> False | c # _ \<Rightarrow> c = 45);
          body = (case t of [] \<Rightarrow> [] | c # r \<Rightarrow> if c = 45 \<or> c = 43 then r else t)
      in case int_digits body 0 of
           None \<Rightarrow> Inl ValueError
         | Some n \<Rightarrow> Inr (if neg then - int n else int n))"

subsection \<open>Decimal prices and their formatting\<close>

text \<open>
  The column \<open>Product.price\<close> is \<open>Numeric(10, 2)\<close> and reaches the handlers as a
  \<open>decimal.Decimal\<close>: a finite value, given by its sign, its coefficient and its exponent
  (the value is the coefficient times ten to the exponent), or one of the special values
  a numeric column can hold, the two infinities and \<open>NaN\<close>.
\<close>

datatype decimal = Finite bool nat int | Infinity bool | NaN

text \<open>
  The coefficient of a finite value rescaled to the exponent \<open>-2\<close>, as \<open>.2f\<close> does it:
  exact when the exponent is at least \<open>-2\<close>, else rounded to the nearest hundredth, a
  half going to the even neighbour.
\<close>

definition hundredths :: "nat \<Rightarrow> int \<Rightarrow> nat" where
  "hundredths c x =
     (if - 2 \<le> x then c * 10 ^ nat (x + 2)
      else (let k = nat (- 2 - x); q = c div 10 ^ k; r = c mod 10 ^ k
            in if 10 ^ k < 2 * r \<or> (2 * r = 10 ^ k \<and> odd q) then q + 1 else q))"

text \<open>
  \<open>f"{price:.2f}"\<close>: for a finite value the sign, the integer part, a point and two
  digits; for a special value its name.
\<close>

definition format_2f :: "decimal \<Rightarrow> ustring" where
  "format_2f d =
     (case d of
        Finite negative c x \<Rightarrow>
          (let h = hundredths c x
           in (if negative then [45] else []) @ py_str_nat (h div 100) @
              [46, 48 + (h mod 100) div 10, 48 + (h mod 100) mod 10])
      | Infinity negative \<Rightarrow> (if negative then [45] else []) @ ascii ''Infinity''
      | NaN \<Rightarrow> ascii ''NaN'')"

section \<open>Data model\<close>

text \<open>
  The four mapped tables. A primary key is an integer, unique in its table; every other
  column is nullable as declared, and the model keeps \<open>NULL\<close> where the handlers'
  behaviour depends on it: \<open>categoryId\<close> and \<open>productId\<close> (a \<open>NULL\<close> matches no
  filter and joins no row) and \<open>price\<close> (formatting \<open>None\<close> raises). Names are
  taken as present. A table is the list of its rows in the order the engine scans them.
\<close>

record category =
  Category_id :: int
  Category_name :: ustring
  slug :: ustring

record product =
  Product_id :: int
  Product_name :: ustring
  price :: "decimal option"
  image :: ustring
  categoryId :: "int option"

record order_row =
  orders_id :: int

record order_products =
  OrderProducts_id :: int
  orderId :: "int option"
  productId :: "int option"
  quantity :: "int option"

record database =
  Category :: "category list"
  Product :: "product list"
  orders :: "order_row list"
  OrderProducts :: "order_products list"

text \<open>A turn of a conversation: the dictionary \<open>{"role": ..., "content": ...}\<close>.\<close>

datatype role = User | Assistant | System

record turn =
  role :: role
  content :: ustring

text \<open>
  \<open>context.chat_data\<close>, the dictionary the framework keeps for one chat: the key
  \<open>"conversation_history"\<close> is absent until the first free text reaches the
  completion path.
\<close>

record chat_data =
  conversation_history :: "turn list option"

subsection \<open>Inbound events\<close>

record message =
  message_first_name :: ustring
  message_chat_id :: int
  message_text :: ustring

record callback_query =
  query_first_name :: ustring
  query_chat_id :: int
  query_data :: ustring

record update =
  update_message :: "message option"
  update_callback_query :: "callback_query option"

subsection \<open>What a handler does\<close>

text \<open>
  A handler's run is the list of calls it issues, in order, together with the exception
  that ended it, if one did. A log entry keeps the level and the fixed part of the text.
  \<open>Send\<close> is one call of the transport: \<open>message.reply_text\<close>,
  \<open>query.edit_message_text\<close> or \<open>query.message.edit_text\<close>, with the text, the parse
  mode and the button grid. The transport itself and the database engine are outside the
  program: a call to them is recorded, and is taken to return, with one exception, the
  integer parameter of a query, which the driver may refuse to bind.
\<close>

record button_spec =
  button_text :: ustring
  callback_data :: ustring

type_synonym keyboard = "button_spec list list"

datatype level = Info | Warning | Error

datatype channel = Reply_text | Edit_message_text | Edit_text

datatype effect =
    Log level string
  | Answer
  | Send channel ustring "string option" "keyboard option"
  | ChatCompletion "turn list"

type_synonym run = "effect list \<times> error option"

definition and_then :: "effect list \<Rightarrow> run \<Rightarrow> run" where
  "and_then pre r = (pre @ fst r, snd r)"

record outcome =
  effects :: "effect list"
  raised :: "error option"
  chat :: chat_data

definition is_render :: "effect \<Rightarrow> bool" where
  "is_render x = (case x of Send _ _ _ _ \<Rightarrow> True | _ \<Rightarrow> False)"

definition is_completion :: "effect \<Rightarrow> bool" where
  "is_completion x = (case x of ChatCompletion _ \<Rightarrow> True | _ \<Rightarrow> False)"

subsection \<open>What the program is given\<close>

text \<open>
  The resources read at start-up and the services called: \<open>text/responses.json\<close> (a
  dictionary of templates), the rule strings of \<open>text/rulesGPT.json\<close>, the clock, the
  database and the completion endpoint, which answers a prompt with the content of its
  first choice or raises. The database driver binds an integer parameter only within the
  range of its integer type and raises on any other: \<open>bind_int\<close> gives the exception, or
  \<open>None\<close> for an integer it accepts. Two library functions whose tables are not reproduced are taken
  as given as well: \<open>str.lower\<close>, and \<open>str.format\<close> applied to a template with the keyword
  arguments \<open>user_first_name\<close> and \<open>chat_id\<close>, which raises on a template it cannot fill.
\<close>

record env =
  responses :: "string \<Rightarrow> ustring option"
  rules :: "ustring list"
  now_hour :: int
  db :: database
  bind_int :: "int \<Rightarrow> error option"
  completion :: "turn list \<Rightarrow> error + ustring"
  lower :: "ustring \<Rightarrow> ustring"
  format_greeting :: "ustring \<Rightarrow> ustring \<Rightarrow> ustring \<Rightarrow> error + ustring"

definition system_context :: "env \<Rightarrow> turn" where
  "system_context e = \<lparr>role = System, content = join_space (rules e)\<rparr>"

section \<open>The handlers\<close>

subsection \<open>\<open>get_greeting\<close>\<close>

definition get_greeting :: "int \<Rightarrow> ustring" where
  "get_greeting current_hour =
     (if 5 \<le> current_hour \<and> current_hour < 12 then ascii ''Buenos d'' @ [237] @ ascii ''as''
      else if 12 \<le> current_hour \<and> current_hour < 18 then ascii ''Buenas tardes''
      else ascii ''Buenas noches'')"

subsection \<open>Button grids\<close>

definition return_start_row :: "button_spec list" where
  "return_start_row =
     [\<lparr>button_text = ascii ''Regresar al Inicio '' @ [8617],
       callback_data = ascii ''return_start''\<rparr>]"

definition return_otros_row :: "button_spec list" where
  "return_otros_row =
     [\<lparr>button_text = ascii ''Regresar a las Preguntas '' @ [8617],
       callback_data = ascii ''return_otros''\<rparr>]"

definition start_keyboard :: keyboard where
  "start_keyboard =
     [[\<lparr>button_text = ascii ''Cu'' @ [225] @ ascii ''l es el men'' @ [250] @ ascii '' de hoy '' @ [128203],
        callback_data = ascii ''menu''\<rparr>],
      [\<lparr>button_text = ascii ''C'' @ [243] @ ascii ''mo puedo realizar un pedido '' @ [128209, 10067],
        callback_data = ascii ''pedido''\<rparr>],
      [\<lparr>button_text = ascii ''Preguntas acerca del Bot '' @ [129302, 8265],
        callback_data = ascii ''otros''\<rparr>]]"

definition get_otros_keyboard :: keyboard where
  "get_otros_keyboard =
     [[\<lparr>button_text = [191] @ ascii ''Cu'' @ [225] @ ascii ''nto tiempo demora en llegar mi pedido? '' @ [9203],
        callback_data = ascii ''tiempo_pedido''\<rparr>],
      [\<lparr>button_text = [191] @ ascii ''Cu'' @ [225] @ ascii ''l es el producto m'' @ [225] @
                       ascii ''s pedido de este establecimiento? '' @ [128202],
        callback_data = ascii ''producto_mas_pedido''\<rparr>],
      [\<lparr>button_text = ascii ''Puse mal una orden '' @ [191] @ ascii ''Qu'' @ [233] @
                       ascii '' puedo hacer? '' @ [128556, 10067],
        callback_data = ascii ''orden_mal''\<rparr>],
      [\<lparr>button_text = ascii ''El aplicativo no abre. '' @ [128534],
        callback_data = ascii ''app_no_abre''\<rparr>],
      [\<lparr>button_text = ascii ''Sobre la informaci'' @ [243] @ ascii ''n Proporcionada '' @ [129300] @ ascii '':'',
        callback_data = ascii ''info_proporcionada''\<rparr>],
      return_start_row]"

subsection \<open>\<open>show_categories\<close>\<close>

text \<open>
  The argument \<open>q\<close> of the three listing functions stands for \<open>query.edit_message_text\<close>:
  the edit of the callback's message when a button was pressed, and \<open>message.reply_text\<close>
  when \<open>handle_text\<close> passes its stand-in for the query.
\<close>

definition category_row :: "category \<Rightarrow> button_spec list" where
  "category_row c =
     [\<lparr>button_text = Category_name c,
       callback_data = ascii ''category_'' @ py_str_int (Category_id c)\<rparr>]"

definition show_categories :: "env \<Rightarrow> channel \<Rightarrow> run" where
  "show_categories e q =
     (let categories = Category (db e);
          logged = [Log Info ''Fetching categories from the database'',
                    Log Info ''Found categories: '']
      in if categories = [] then
           (logged @ [Send q (ascii ''No hay categor'' @ [237] @ ascii ''as disponibles.'') None None],
            None)
         else
           (logged @ [Send q (ascii ''Selecciona una categor'' @ [237] @ ascii ''a:'') None
                        (Some (map category_row categories @ [return_start_row]))],
            None))"

subsection \<open>\<open>show_products\<close>\<close>

text \<open>
  \<open>session.execute(select(Product).filter(Product.categoryId == category_id))\<close>: the
  driver binds \<open>category_id\<close> as the parameter of the query and raises when it cannot;
  otherwise the rows whose \<open>categoryId\<close> equals it come back, in scan order.
\<close>

definition products_of_category :: "env \<Rightarrow> int \<Rightarrow> error + product list" where
  "products_of_category e category_id =
     (case bind_int e category_id of
        Some err \<Rightarrow> Inl err
      | None \<Rightarrow> Inr (filter (\<lambda>p. categoryId p = Some category_id) (Product (db e))))"

text \<open>
  The loop that builds one row per product. It formats every price before anything is
  sent, so a \<open>NULL\<close> price ends the handler with \<open>TypeError\<close> and no message.
\<close>

definition product_label :: "ustring \<Rightarrow> ustring \<Rightarrow> ustring" where
  "product_label name price_text = name @ ascii '' - $'' @ price_text"

fun product_rows :: "product list \<Rightarrow> error + keyboard" where
  "product_rows [] = Inr []"
| "product_rows (p # ps) =
     (case price p of
        None \<Rightarrow> Inl TypeError
      | Some h \<Rightarrow>
          (case product_rows ps of
             Inl err \<Rightarrow> Inl err
           | Inr rows \<Rightarrow>
               Inr ([\<lparr>button_text = product_label (Product_name p) (format_2f h),
                       callback_data = ascii ''product_'' @ py_str_int (Product_id p)\<rparr>] # rows)))"

definition no_products_text :: ustring where
  "no_products_text = ascii ''No hay productos disponibles en esta categor'' @ [237] @ ascii ''a.''"

definition return_categories_row :: "button_spec list" where
  "return_categories_row =
     [\<lparr>button_text = ascii ''Regresar a Categor'' @ [237] @ ascii ''as '' @ [8617],
       callback_data = ascii ''return_categories''\<rparr>]"

text \<open>
  The query runs after the first log entry; an exception of the query ends the handler
  there, before the second entry and before anything is sent.
\<close>

definition show_products :: "env \<Rightarrow> channel \<Rightarrow> int \<Rightarrow> run" where
  "show_products e q category_id =
     (case products_of_category e category_id of
        Inl err \<Rightarrow> ([Log Info ''Fetching products for category ''], Some err)
      | Inr products \<Rightarrow>
          (let logged = [Log Info ''Fetching products for category '',
                         Log Info ''Found products: '']
           in if products = [] then (logged @ [Send q no_products_text None None], None)
              else
                (case product_rows products of
                   Inl err \<Rightarrow> (logged, Some err)
                 | Inr rows \<Rightarrow>
                     (logged @ [Send q (ascii ''Selecciona un producto:'') None
                                  (Some (rows @ [return_categories_row]))],
                      None))))"

subsection \<open>\<open>show_most_ordered_product\<close>\<close>

text \<open>
  The query joins \<open>Product\<close> to \<open>OrderProducts\<close> on the product's key, groups by that key,
  orders the groups by their number of joined lines, largest first, and keeps one row.
  The key is unique, so a group is a product row with at least one line. Among groups with
  the same number of lines the engine is free to choose; the model keeps the scan order
  (the sort is stable), and no theorem below depends on that choice.
\<close>

definition line_count :: "database \<Rightarrow> product \<Rightarrow> nat" where
  "line_count d p = length (filter (\<lambda>l. productId l = Some (Product_id p)) (OrderProducts d))"

definition grouped :: "database \<Rightarrow> (product \<times> nat) list" where
  "grouped d = filter (\<lambda>g. 0 < snd g) (map (\<lambda>p. (p, line_count d p)) (Product d))"

definition most_ordered_product :: "database \<Rightarrow> product option" where
  "most_ordered_product d =
     (case take 1 (sort_key (\<lambda>g. - int (snd g)) (grouped d)) of
        [] \<Rightarrow> None
      | g # _ \<Rightarrow> Some (fst g))"

definition no_information_text :: ustring where
  "no_information_text =
     ascii ''No se encontr'' @ [243] @ ascii '' informaci'' @ [243] @
     ascii ''n sobre el producto m'' @ [225] @ ascii ''s pedido.''"

definition most_ordered_text :: "ustring \<Rightarrow> ustring \<Rightarrow> ustring" where
  "most_ordered_text name price_text =
     ascii ''El producto m'' @ [225] @ ascii ''s pedido es '' @ name @
     ascii '' a un precio de $'' @ price_text @ ascii ''.''"

definition show_most_ordered_product :: "env \<Rightarrow> channel \<Rightarrow> run" where
  "show_most_ordered_product e q =
     (let logged = [Log Info ''Fetching the most ordered product'',
                    Log Info ''Most ordered product: '']
      in case most_ordered_product (db e) of
           None \<Rightarrow> (logged @ [Send q no_information_text None (Some [return_otros_row])], None)
         | Some p \<Rightarrow>
             (case price p of
                None \<Rightarrow> (logged, Some TypeError)
              | Some h \<Rightarrow>
                  (logged @ [Send q (most_ordered_text (Product_name p) (format_2f h)) None
                               (Some [return_otros_row])],
                   None)))"

subsection \<open>\<open>start\<close>\<close>

text \<open>
  The first \<open>if\<close>/\<open>elif\<close>/\<open>else\<close> of \<open>start\<close>: the display name and the chat identifier
  come from the message when the update has one, else from the callback query, and the
  later sends go through the same origin. \<open>None\<close> is the \<open>else\<close> branch.
\<close>

definition resolve_origin :: "update \<Rightarrow> (channel \<times> ustring \<times> int) option" where
  "resolve_origin u =
     (case update_message u of
        Some m \<Rightarrow> Some (Reply_text, message_first_name m, message_chat_id m)
      | None \<Rightarrow>
          (case update_callback_query u of
             Some query \<Rightarrow> Some (Edit_text, query_first_name query, query_chat_id query)
           | None \<Rightarrow> None))"

text \<open>
  \<open>start\<close> also computes \<open>get_greeting()\<close> and a bot name, and uses neither: the greeting
  sent is the template of \<open>responses\<close> filled with the name and the chat identifier.
\<close>

definition start :: "env \<Rightarrow> update \<Rightarrow> run" where
  "start e u =
     (case resolve_origin u of
        None \<Rightarrow>
          ([Log Info ''Handling /start command'',
            Log Warning ''Update does not have message or callback_query''], None)
      | Some (q, user_first_name, chat_id) \<Rightarrow>
          (let greeting = get_greeting (now_hour e);
               logged = [Log Info ''Handling /start command'', Log Info ''Chat ID: '']
           in case responses e ''greeting_message'' of
                None \<Rightarrow> (logged, Some KeyError)
              | Some template \<Rightarrow>
                  (case format_greeting e template user_first_name
                          ([96] @ py_str_int chat_id @ [96]) of
                     Inl err \<Rightarrow> (logged, Some err)
                   | Inr greeting_message \<Rightarrow>
                       and_then (logged @ [Send q greeting_message (Some ''Markdown'') None])
                         (case responses e ''menu_message'' of
                            None \<Rightarrow> ([], Some KeyError)
                          | Some menu_message \<Rightarrow>
                              ([Send q menu_message None (Some start_keyboard)], None)))))"

subsection \<open>\<open>handle_text\<close>\<close>

definition menu_keyword :: ustring where
  "menu_keyword = ascii ''men'' @ [250]"

definition most_ordered_keywords :: "ustring list" where
  "most_ordered_keywords =
     [ascii ''producto m'' @ [225] @ ascii ''s pedido'',
      ascii ''orden m'' @ [225] @ ascii ''s pedida'',
      ascii ''producto m'' @ [225] @ ascii ''s vendido'']"

definition apology_text :: ustring where
  "apology_text =
     ascii ''Lo siento, algo sali'' @ [243] @ ascii '' mal al procesar tu solicitud.''"

text \<open>\<open>messages = [system_context] + context.chat_data["conversation_history"]\<close>.\<close>

definition prompt_messages :: "env \<Rightarrow> turn list \<Rightarrow> turn list" where
  "prompt_messages e history = system_context e # history"

definition finish :: "chat_data \<Rightarrow> run \<Rightarrow> outcome" where
  "finish cd r = \<lparr>effects = fst r, raised = snd r, chat = cd\<rparr>"

text \<open>
  The handler reads \<open>update.message.text\<close> first, which raises on an update without a
  message. The two keyword tests come before the history is touched. On the completion
  path the user's turn is appended, the prompt is built and the endpoint is called inside
  the \<open>try\<close>: whatever it raises is caught, logged and answered with the apology.
\<close>

definition handle_text :: "env \<Rightarrow> update \<Rightarrow> chat_data \<Rightarrow> outcome" where
  "handle_text e u cd =
     (case update_message u of
        None \<Rightarrow> finish cd ([], Some AttributeError)
      | Some m \<Rightarrow>
          (let user_message = message_text m;
               logged = [Log Info ''Received message from user: '']
           in if py_in menu_keyword (lower e user_message) then
                finish cd (and_then logged (show_categories e Reply_text))
              else if list_ex (\<lambda>keyword. py_in keyword (lower e user_message))
                        most_ordered_keywords then
                finish cd (and_then logged (show_most_ordered_product e Reply_text))
              else
                (let history =
                       (case conversation_history cd of None \<Rightarrow> [] | Some h \<Rightarrow> h) @
                       [\<lparr>role = User, content = user_message\<rparr>];
                     messages = prompt_messages e history
                 in case completion e messages of
                      Inl err \<Rightarrow>
                        \<lparr>effects = logged @
                           [ChatCompletion messages,
                            Log Error ''Error generating response: '',
                            Send Reply_text apology_text None None],
                         raised = None,
                         chat = cd\<lparr>conversation_history := Some history\<rparr>\<rparr>
                    | Inr text \<Rightarrow>
                        (let gpt_response = py_strip text
                         in \<lparr>effects = logged @
                               [ChatCompletion messages,
                                Send Reply_text gpt_response None None],
                             raised = None,
                             chat = cd\<lparr>conversation_history :=
                                       Some (history @
                                             [\<lparr>role = Assistant, content = gpt_response\<rparr>])\<rparr>\<rparr>))))"

text \<open>
  The free texts of one chat, handled one after the other: the framework passes every
  event of the chat the same \<open>chat_data\<close>, and an event that ends with an exception does
  not stop the next one.
\<close>

fun handle_texts :: "env \<Rightarrow> update list \<Rightarrow> chat_data \<Rightarrow> effect list \<times> chat_data" where
  "handle_texts e [] cd = ([], cd)"
| "handle_texts e (u # us) cd =
     (let r = handle_text e u cd;
          rest = handle_texts e us (chat r)
      in (effects r @ fst rest, snd rest))"

subsection \<open>\<open>button\<close>\<close>

definition canned_response :: "env \<Rightarrow> string \<Rightarrow> keyboard \<Rightarrow> run" where
  "canned_response e key reply_markup =
     (case responses e key of
        None \<Rightarrow> ([], Some KeyError)
      | Some response \<Rightarrow> ([Send Edit_message_text response None (Some reply_markup)], None))"

definition button :: "env \<Rightarrow> update \<Rightarrow> chat_data \<Rightarrow> outcome" where
  "button e u cd =
     (case update_callback_query u of
        None \<Rightarrow> finish cd ([], Some AttributeError)
      | Some query \<Rightarrow>
          finish cd (and_then [Answer, Log Info ''Callback data received: '']
            (let data = query_data query
             in if data = ascii ''menu'' then show_categories e Edit_message_text
                else if startswith data (ascii ''category_'') then
                  (case py_index (py_split 95 data) 1 of
                     Inl err \<Rightarrow> ([], Some err)
                   | Inr segment \<Rightarrow>
                       (case py_int segment of
                          Inl err \<Rightarrow> ([], Some err)
                        | Inr category_id \<Rightarrow> show_products e Edit_message_text category_id))
                else if data = ascii ''pedido'' then
                  canned_response e ''pedido_response'' [return_start_row]
                else if data = ascii ''otros'' then
                  canned_response e ''other_questions_message'' get_otros_keyboard
                else if data = ascii ''tiempo_pedido'' then
                  canned_response e ''tiempo_pedido_response'' [return_otros_row]
                else if data = ascii ''producto_mas_pedido'' then
                  show_most_ordered_product e Edit_message_text
                else if data = ascii ''orden_mal'' then
                  canned_response e ''orden_mal_response'' [return_otros_row]
                else if data = ascii ''app_no_abre'' then
                  canned_response e ''app_no_abre_response'' [return_otros_row]
                else if data = ascii ''info_proporcionada'' then
                  canned_response e ''info_proporcionada_response'' [return_otros_row]
                else if data = ascii ''return_start'' then start e u
                else if data = ascii ''return_otros'' then
                  canned_response e ''other_questions_message'' get_otros_keyboard
                else if data = ascii ''return_categories'' then
                  and_then [Log Info ''Returning to categories'']
                    (show_categories e Edit_message_text)
                else ([], None))))"

section \<open>Vocabulary of the properties\<close>

text \<open>The history stored for a chat, empty while the key is absent.\<close>

definition stored_history :: "chat_data \<Rightarrow> turn list" where
  "stored_history cd = (case conversation_history cd of None \<Rightarrow> [] | Some h \<Rightarrow> h)"

definition user_turn :: "ustring \<Rightarrow> turn" where
  "user_turn s = \<lparr>role = User, content = s\<rparr>"

definition assistant_turn :: "ustring \<Rightarrow> turn" where
  "assistant_turn s = \<lparr>role = Assistant, content = s\<rparr>"

text \<open>A free text that neither keyword test intercepts.\<close>

definition reaches_completion :: "env \<Rightarrow> ustring \<Rightarrow> bool" where
  "reaches_completion e s \<longleftrightarrow>
     \<not> py_in menu_keyword (lower e s) \<and>
     \<not> list_ex (\<lambda>keyword. py_in keyword (lower e s)) most_ordered_keywords"

definition is_ascii_digit :: "nat \<Rightarrow> bool" where
  "is_ascii_digit c \<longleftrightarrow> 48 \<le> c \<and> c \<le> 57"

text \<open>
  A text with exactly two decimal digits: an integer part without a point, a point, and
  two digits.
\<close>

definition two_decimals :: "ustring \<Rightarrow> bool" where
  "two_decimals s =
     (case rev s of
        d2 # d1 # dot # ip \<Rightarrow>
          dot = 46 \<and> is_ascii_digit d1 \<and> is_ascii_digit d2 \<and> ip \<noteq> [] \<and> 46 \<notin> set ip
      | _ \<Rightarrow> False)"

text \<open>
  The price a text with two decimal digits stands for: its sign and its number of
  hundredths, read from the digits.
\<close>

definition digits_value :: "ustring \<Rightarrow> nat" where
  "digits_value ds = foldl (\<lambda>a c. 10 * a + (c - 48)) 0 ds"

definition read_2f :: "ustring \<Rightarrow> (bool \<times> nat) option" where
  "read_2f s =
     (case rev s of
        d2 # d1 # dot # ri \<Rightarrow>
          (let ip = rev ri;
               negative = (case ip of [] \<Rightarrow> False | c # _ \<Rightarrow> c = 45);
               ds = (if negative then tl ip else ip)
           in if dot = 46 \<and> ds \<noteq> [] \<and> list_all is_ascii_digit (ds @ [d1, d2])
              then Some (negative, digits_value (ds @ [d1, d2]))
              else None)
      | _ \<Rightarrow> None)"

subsection \<open>Fixtures\<close>

text \<open>
  \<open>str.lower\<close> on texts of code points below 256: the capitals A to Z and the accented
  capitals move up by 32, everything else stays.
\<close>

definition lower_latin1 :: "ustring \<Rightarrow> ustring" where
  "lower_latin1 s =
     map (\<lambda>c. if (65 \<le> c \<and> c \<le> 90) \<or> (192 \<le> c \<and> c \<le> 222 \<and> c \<noteq> 215) then c + 32 else c) s"

definition P1 :: product where
  "P1 = \<lparr>Product_id = 1, Product_name = ascii ''Cafe'', price = Some (Finite False 150 (- 2)),
          image = ascii ''cafe.png'', categoryId = Some 1\<rparr>"

definition P2 :: product where
  "P2 = \<lparr>Product_id = 2, Product_name = ascii ''Flan'', price = Some (Finite False 325 (- 2)),
          image = ascii ''flan.png'', categoryId = Some 2\<rparr>"

definition order_line :: "int \<Rightarrow> int \<Rightarrow> order_products" where
  "order_line i p = \<lparr>OrderProducts_id = i, orderId = Some 1, productId = Some p, quantity = Some 1\<rparr>"

definition fixture_db :: database where
  "fixture_db =
     \<lparr>Category = [\<lparr>Category_id = 1, Category_name = ascii ''Bebidas'', slug = ascii ''bebidas''\<rparr>,
                  \<lparr>Category_id = 2, Category_name = ascii ''Postres'', slug = ascii ''postres''\<rparr>],
      Product = [P2, P1],
      orders = [\<lparr>orders_id = 1\<rparr>],
      OrderProducts = [order_line 1 1, order_line 2 2, order_line 3 1, order_line 4 1]\<rparr>"

definition empty_db :: database where
  "empty_db = \<lparr>Category = [], Product = [P1, P2], orders = [], OrderProducts = []\<rparr>"

definition P3 :: product where
  "P3 = \<lparr>Product_id = 3, Product_name = ascii ''Oro'', price = Some NaN,
          image = ascii ''oro.png'', categoryId = Some 3\<rparr>"

definition nan_db :: database where
  "nan_db = \<lparr>Category = [], Product = [P3], orders = [\<lparr>orders_id = 1\<rparr>],
             OrderProducts = [order_line 1 3]\<rparr>"

definition fixture_env :: env where
  "fixture_env =
     \<lparr>responses = map_of [(''greeting_message'', ascii ''Hola''), (''menu_message'', ascii ''Elige'')],
      rules = [ascii ''Eres un mesero.'', ascii ''Responde en breve.''],
      now_hour = 10,
      db = fixture_db,
      bind_int = (\<lambda>i. if - (2 ^ 63) \<le> i \<and> i < 2 ^ 63 then None else Some OverflowError),
      completion = (\<lambda>messages. Inr (ascii '' Claro. '')),
      lower = lower_latin1,
      format_greeting = (\<lambda>template user_first_name chat_id.
                           Inr (template @ [32] @ user_first_name @ [32] @ chat_id))\<rparr>"

definition failing_env :: env where
  "failing_env = fixture_env\<lparr>completion := (\<lambda>messages. Inl (ApiError (ascii ''timeout'')))\<rparr>"

definition text_update :: "ustring \<Rightarrow> update" where
  "text_update s =
     \<lparr>update_message = Some \<lparr>message_first_name = ascii ''Ana'', message_chat_id = 77,
                               message_text = s\<rparr>,
      update_callback_query = None\<rparr>"

definition callback_update :: "ustring \<Rightarrow> update" where
  "callback_update data =
     \<lparr>update_message = None,
      update_callback_query = Some \<lparr>query_first_name = ascii ''Ana'', query_chat_id = 77,
                                      query_data = data\<rparr>\<rparr>"

definition no_chat_data :: chat_data where
  "no_chat_data = \<lparr>conversation_history = None\<rparr>"

definition menu_and_most_ordered_text :: ustring where
  "menu_and_most_ordered_text =
     ascii ''Cual es el producto m'' @ [225] @ ascii ''s pedido del Men'' @ [250]"

definition most_sold_text :: ustring where
  "most_sold_text = ascii ''Cual es el Producto M'' @ [193] @ ascii ''S VENDIDO?''"

definition empty_env :: env where
  "empty_env = fixture_env\<lparr>db := empty_db\<rparr>"

definition nan_env :: env where
  "nan_env = fixture_env\<lparr>db := nan_db\<rparr>"

definition bare_update :: update where
  "bare_update = \<lparr>update_message = None, update_callback_query = None\<rparr>"

text \<open>The callback tokens that \<open>button\<close> compares with \<open>==\<close>.\<close>

definition exact_tokens :: "ustring list" where
  "exact_tokens =
     [ascii ''menu'', ascii ''pedido'', ascii ''otros'', ascii ''tiempo_pedido'',
      ascii ''producto_mas_pedido'', ascii ''orden_mal'', ascii ''app_no_abre'',
      ascii ''info_proporcionada'', ascii ''return_start'', ascii ''return_otros'',
      ascii ''return_categories'']"

text \<open>
  A decimal integer literal, in the words of the specification: an optional sign followed
  by one or more of the digits 0 to 9.
\<close>

definition decimal_integer_literal :: "ustring \<Rightarrow> bool" where
  "decimal_integer_literal s =
     (let body = (case s of [] \<Rightarrow> [] | c # r \<Rightarrow> if c = 45 \<or> c = 43 then r else s)
      in body \<noteq> [] \<and> list_all is_ascii_digit body)"

text \<open>An optional sign followed by one or more decimal digits of any script.\<close>

definition signed_digits :: "ustring \<Rightarrow> bool" where
  "signed_digits s =
     (let body = (case s of [] \<Rightarrow> [] | c # r \<Rightarrow> if c = 45 \<or> c = 43 then r else s)
      in body \<noteq> [] \<and> list_all (\<lambda>c. decimal_value c \<noteq> None) body)"

text \<open>The segment \<open>split("_")[1]\<close> of a token \<open>category_\<close>\<open>rest\<close>: \<open>rest\<close> up to its first underscore.\<close>

definition second_segment :: "ustring \<Rightarrow> ustring" where
  "second_segment rest = takeWhile (\<lambda>c. c \<noteq> 95) rest"

section \<open>Verified properties\<close>

lemmas fixture_defs = fixture_env_def failing_env_def fixture_db_def empty_db_def P1_def P2_def
  order_line_def text_update_def callback_update_def no_chat_data_def lower_latin1_def
  menu_and_most_ordered_text_def most_sold_text_def empty_env_def bare_update_def
  P3_def nan_db_def nan_env_def

subsection \<open>A failing completion call\<close>

text \<open>
  C1. For every free text that reaches the completion call: when the call raises, whatever
  the exception, the handler logs the error and sends the fixed apology of its \<open>except\<close>
  branch as its only message, it raises
  nothing itself, and the chat's history afterwards is the history before with the user's
  turn appended and nothing else: no assistant turn is added.
\<close>

theorem handle_text_completion_failure:
  assumes "update_message u = Some m"
    and "reaches_completion e (message_text m)"
    and "completion e (prompt_messages e (stored_history cd @ [user_turn (message_text m)])) =
           Inl err"
  shows "effects (handle_text e u cd) =
           [Log Info ''Received message from user: '',
            ChatCompletion (prompt_messages e (stored_history cd @ [user_turn (message_text m)])),
            Log Error ''Error generating response: '',
            Send Reply_text
              (ascii ''Lo siento, algo sali'' @ [243] @ ascii '' mal al procesar tu solicitud.'')
              None None] \<and>
         raised (handle_text e u cd) = None \<and>
         stored_history (chat (handle_text e u cd)) =
           stored_history cd @ [user_turn (message_text m)] \<and>
         filter (\<lambda>t. role t = Assistant) (stored_history (chat (handle_text e u cd))) =
           filter (\<lambda>t. role t = Assistant) (stored_history cd)"
  using assms
  by (simp add: handle_text_def reaches_completion_def stored_history_def user_turn_def
      apology_text_def Let_def)

lemma reaches_hola: "reaches_completion failing_env (ascii ''Hola'')"
  by (simp add: reaches_completion_def fixture_defs menu_keyword_def most_ordered_keywords_def
      ascii_def)

theorem handle_text_completion_failure_witness:
  "update_message (text_update (ascii ''Hola'')) =
     Some \<lparr>message_first_name = ascii ''Ana'', message_chat_id = 77,
            message_text = ascii ''Hola''\<rparr> \<and>
   reaches_completion failing_env (ascii ''Hola'') \<and>
   completion failing_env (prompt_messages failing_env
       (stored_history no_chat_data @ [user_turn (ascii ''Hola'')])) =
     Inl (ApiError (ascii ''timeout'')) \<and>
   raised (handle_text failing_env (text_update (ascii ''Hola'')) no_chat_data) = None \<and>
   stored_history (chat (handle_text failing_env (text_update (ascii ''Hola'')) no_chat_data)) =
     [user_turn (ascii ''Hola'')]"
proof -
  let ?m = "\<lparr>message_first_name = ascii ''Ana'', message_chat_id = 77,
             message_text = ascii ''Hola''\<rparr>"
  have a: "update_message (text_update (ascii ''Hola'')) = Some ?m"
    by (simp add: text_update_def)
  have b: "reaches_completion failing_env (message_text ?m)"
    using reaches_hola by simp
  have c: "completion failing_env (prompt_messages failing_env
       (stored_history no_chat_data @ [user_turn (message_text ?m)])) =
     Inl (ApiError (ascii ''timeout''))"
    by (simp add: failing_env_def)
  have d: "stored_history no_chat_data = []"
    by (simp add: stored_history_def no_chat_data_def)
  show ?thesis
    using handle_text_completion_failure [OF a b c] a b c d by simp
qed

subsection \<open>The greeting by hour\<close>

text \<open>
  C4. For every hour from 5 to 11 \<open>get_greeting\<close> returns the morning text, for every hour
  from 12 to 17 the afternoon text, and for every other hour the night text. The hours 5,
  12, 18 and 0 give the morning, afternoon, night and night text, and the three texts are
  pairwise different, so each hour has exactly one of them.
\<close>

theorem get_greeting_by_hour:
  "(5 \<le> h \<and> h < 12 \<longrightarrow> get_greeting h = ascii ''Buenos d'' @ [237] @ ascii ''as'') \<and>
   (12 \<le> h \<and> h < 18 \<longrightarrow> get_greeting h = ascii ''Buenas tardes'') \<and>
   (\<not> (5 \<le> h \<and> h < 18) \<longrightarrow> get_greeting h = ascii ''Buenas noches'') \<and>
   get_greeting 5 = ascii ''Buenos d'' @ [237] @ ascii ''as'' \<and>
   get_greeting 12 = ascii ''Buenas tardes'' \<and>
   get_greeting 18 = ascii ''Buenas noches'' \<and>
   get_greeting 0 = ascii ''Buenas noches'' \<and>
   distinct [ascii ''Buenos d'' @ [237] @ ascii ''as'', ascii ''Buenas tardes'',
             ascii ''Buenas noches'']"
  by (simp add: get_greeting_def ascii_def)

theorem get_greeting_by_hour_witness:
  "(5::int) \<le> 11 \<and> (11::int) < 12 \<and>
   get_greeting 11 = ascii ''Buenos d'' @ [237] @ ascii ''as'' \<and>
   (12::int) \<le> 17 \<and> (17::int) < 18 \<and> get_greeting 17 = ascii ''Buenas tardes'' \<and>
   \<not> (5 \<le> (23::int) \<and> (23::int) < 18) \<and> get_greeting 23 = ascii ''Buenas noches'' \<and>
   \<not> (5 \<le> (4::int) \<and> (4::int) < 18) \<and> get_greeting 4 = ascii ''Buenas noches''"
  using get_greeting_by_hour [of 11] get_greeting_by_hour [of 17]
    get_greeting_by_hour [of 23] get_greeting_by_hour [of 4]
  by simp

subsection \<open>Keyword routing of free text\<close>

lemma show_categories_no_completion: "\<not> list_ex is_completion (fst (show_categories e q))"
  by (simp add: show_categories_def is_completion_def Let_def)

lemma show_most_ordered_no_completion:
  "\<not> list_ex is_completion (fst (show_most_ordered_product e q))"
  by (simp add: show_most_ordered_product_def is_completion_def Let_def split: option.splits)

text \<open>
  C2, as the code has it. A free text whose lowercased form contains \<open>men\<close>\<open>u\<close> with the
  accent goes to the category listing. A free text whose lowercased form contains one of
  the three phrasings and does not contain that word goes to the most-ordered-product
  answer. In both cases the handler does exactly what the listing function does, through
  the reply channel: the completion endpoint is not called and the chat's data are left as
  they were.
\<close>

theorem keyword_routing:
  assumes "update_message u = Some m"
  shows "(py_in menu_keyword (lower e (message_text m)) \<longrightarrow>
            handle_text e u cd =
              finish cd (and_then [Log Info ''Received message from user: '']
                           (show_categories e Reply_text))) \<and>
         (\<not> py_in menu_keyword (lower e (message_text m)) \<and>
          list_ex (\<lambda>keyword. py_in keyword (lower e (message_text m)))
            [ascii ''producto m'' @ [225] @ ascii ''s pedido'',
             ascii ''orden m'' @ [225] @ ascii ''s pedida'',
             ascii ''producto m'' @ [225] @ ascii ''s vendido''] \<longrightarrow>
            handle_text e u cd =
              finish cd (and_then [Log Info ''Received message from user: '']
                           (show_most_ordered_product e Reply_text))) \<and>
         (\<not> reaches_completion e (message_text m) \<longrightarrow>
            \<not> list_ex is_completion (effects (handle_text e u cd)) \<and>
            chat (handle_text e u cd) = cd)"
  using assms show_categories_no_completion [of e Reply_text]
    show_most_ordered_no_completion [of e Reply_text]
  by (simp add: handle_text_def reaches_completion_def most_ordered_keywords_def finish_def
      and_then_def is_completion_def Let_def)

lemma lower_menu_and_most_ordered:
  "lower fixture_env menu_and_most_ordered_text =
     ascii ''cual es el producto m'' @ [225] @ ascii ''s pedido del men'' @ [250]"
  by (simp add: fixture_defs ascii_def)

lemma lower_most_sold:
  "lower fixture_env most_sold_text =
     ascii ''cual es el producto m'' @ [225] @ ascii ''s vendido?''"
  by (simp add: fixture_defs ascii_def)

lemma menu_in_both: "py_in menu_keyword (lower fixture_env menu_and_most_ordered_text)"
  unfolding lower_menu_and_most_ordered by (simp add: menu_keyword_def ascii_def)

lemma phrase_in_both:
  "py_in (ascii ''producto m'' @ [225] @ ascii ''s pedido'')
     (lower fixture_env menu_and_most_ordered_text)"
  unfolding lower_menu_and_most_ordered by (simp add: ascii_def)

lemma menu_not_in_most_sold: "\<not> py_in menu_keyword (lower fixture_env most_sold_text)"
  unfolding lower_most_sold by (simp add: menu_keyword_def ascii_def)

lemma phrase_in_most_sold:
  "py_in (ascii ''producto m'' @ [225] @ ascii ''s vendido'') (lower fixture_env most_sold_text)"
  unfolding lower_most_sold by (simp add: ascii_def)

lemma listing_runs_differ:
  "show_most_ordered_product fixture_env Reply_text \<noteq> show_categories fixture_env Reply_text"
  by (simp add: show_most_ordered_product_def show_categories_def Let_def fixture_defs
      split: option.splits)

theorem keyword_routing_witness:
  "update_message (text_update menu_and_most_ordered_text) =
     Some \<lparr>message_first_name = ascii ''Ana'', message_chat_id = 77,
            message_text = menu_and_most_ordered_text\<rparr> \<and>
   py_in menu_keyword (lower fixture_env menu_and_most_ordered_text) \<and>
   handle_text fixture_env (text_update menu_and_most_ordered_text) no_chat_data =
     finish no_chat_data (and_then [Log Info ''Received message from user: '']
                            (show_categories fixture_env Reply_text)) \<and>
   \<not> py_in menu_keyword (lower fixture_env most_sold_text) \<and>
   py_in (ascii ''producto m'' @ [225] @ ascii ''s vendido'') (lower fixture_env most_sold_text) \<and>
   handle_text fixture_env (text_update most_sold_text) no_chat_data =
     finish no_chat_data (and_then [Log Info ''Received message from user: '']
                            (show_most_ordered_product fixture_env Reply_text)) \<and>
   \<not> reaches_completion fixture_env most_sold_text \<and>
   \<not> list_ex is_completion
       (effects (handle_text fixture_env (text_update most_sold_text) no_chat_data)) \<and>
   chat (handle_text fixture_env (text_update most_sold_text) no_chat_data) = no_chat_data"
proof -
  let ?m1 = "\<lparr>message_first_name = ascii ''Ana'', message_chat_id = 77,
              message_text = menu_and_most_ordered_text\<rparr>"
  let ?m2 = "\<lparr>message_first_name = ascii ''Ana'', message_chat_id = 77,
              message_text = most_sold_text\<rparr>"
  have a1: "update_message (text_update menu_and_most_ordered_text) = Some ?m1"
    by (simp add: text_update_def)
  have a2: "update_message (text_update most_sold_text) = Some ?m2"
    by (simp add: text_update_def)
  have r: "\<not> reaches_completion fixture_env most_sold_text"
    using phrase_in_most_sold by (simp add: reaches_completion_def most_ordered_keywords_def)
  note k1 = keyword_routing [OF a1, of fixture_env no_chat_data]
  note k2 = keyword_routing [OF a2, of fixture_env no_chat_data]
  have c1: "handle_text fixture_env (text_update menu_and_most_ordered_text) no_chat_data =
     finish no_chat_data (and_then [Log Info ''Received message from user: '']
                            (show_categories fixture_env Reply_text))"
    using k1 [THEN conjunct1] menu_in_both by simp
  have c2: "handle_text fixture_env (text_update most_sold_text) no_chat_data =
     finish no_chat_data (and_then [Log Info ''Received message from user: '']
                            (show_most_ordered_product fixture_env Reply_text))"
    using k2 [THEN conjunct2, THEN conjunct1] menu_not_in_most_sold phrase_in_most_sold
    by simp
  have c3: "\<not> list_ex is_completion
       (effects (handle_text fixture_env (text_update most_sold_text) no_chat_data)) \<and>
     chat (handle_text fixture_env (text_update most_sold_text) no_chat_data) = no_chat_data"
    using k2 [THEN conjunct2, THEN conjunct2] r by simp
  show ?thesis
    using a1 menu_in_both menu_not_in_most_sold phrase_in_most_sold r c1 c2 c3
    by blast
qed

theorem keyword_routing_counterexample:
  "py_in (ascii ''producto m'' @ [225] @ ascii ''s pedido'')
     (lower fixture_env menu_and_most_ordered_text) \<and>
   handle_text fixture_env (text_update menu_and_most_ordered_text) no_chat_data =
     finish no_chat_data (and_then [Log Info ''Received message from user: '']
                            (show_categories fixture_env Reply_text)) \<and>
   handle_text fixture_env (text_update menu_and_most_ordered_text) no_chat_data \<noteq>
     finish no_chat_data (and_then [Log Info ''Received message from user: '']
                            (show_most_ordered_product fixture_env Reply_text))"
proof -
  have h: "handle_text fixture_env (text_update menu_and_most_ordered_text) no_chat_data =
     finish no_chat_data (and_then [Log Info ''Received message from user: '']
                            (show_categories fixture_env Reply_text))"
    using menu_in_both by (simp add: handle_text_def text_update_def Let_def)
  have "finish no_chat_data (and_then [Log Info ''Received message from user: '']
                            (show_categories fixture_env Reply_text)) \<noteq>
     finish no_chat_data (and_then [Log Info ''Received message from user: '']
                            (show_most_ordered_product fixture_env Reply_text))"
    using listing_runs_differ by (auto simp: finish_def and_then_def prod_eq_iff)
  with h phrase_in_both show ?thesis by simp
qed

subsection \<open>The most ordered product\<close>


lemma sort_key_head:
  assumes "sort_key f xs = g # gs"
  shows "g \<in> set xs \<and> (\<forall>x\<in>set xs. f g \<le> f x)"
proof -
  have "set (g # gs) = set xs" using assms set_sort [of f xs] by simp
  moreover have "sorted (map f (g # gs))" using assms sorted_sort_key [of f xs] by simp
  ultimately show ?thesis by auto
qed

lemma grouped_member:
  "g \<in> set (grouped d) \<longleftrightarrow>
     fst g \<in> set (Product d) \<and> snd g = line_count d (fst g) \<and> 0 < line_count d (fst g)"
  by (cases g) (auto simp: grouped_def)

lemma most_ordered_None:
  "most_ordered_product d = None \<longleftrightarrow> grouped d = []"
proof -
  have "sort_key (\<lambda>g. - int (snd g)) (grouped d) = [] \<longleftrightarrow> grouped d = []"
    using length_sort [of "\<lambda>g. - int (snd g)" "grouped d"] by (metis length_0_conv)
  then show ?thesis
    by (cases "sort_key (\<lambda>g. - int (snd g)) (grouped d)") (simp_all add: most_ordered_product_def)
qed

lemma grouped_empty:
  "grouped d = [] \<longleftrightarrow> (\<forall>q\<in>set (Product d). line_count d q = 0)"
  by (auto simp: grouped_def filter_empty_conv)

lemma most_ordered_Some:
  assumes "most_ordered_product d = Some p"
  shows "p \<in> set (Product d) \<and> 0 < line_count d p \<and>
         (\<forall>q\<in>set (Product d). line_count d q \<le> line_count d p)"
proof -
  obtain g gs where s: "sort_key (\<lambda>g. - int (snd g)) (grouped d) = g # gs" and p: "p = fst g"
    using assms
    by (cases "sort_key (\<lambda>g. - int (snd g)) (grouped d)") (auto simp: most_ordered_product_def)
  from sort_key_head [OF s]
  have g: "g \<in> set (grouped d)" and le: "\<forall>x\<in>set (grouped d). snd x \<le> snd g"
    by auto
  from g have m: "p \<in> set (Product d)" "snd g = line_count d p" "0 < line_count d p"
    using p by (simp_all add: grouped_member)
  have "line_count d q \<le> line_count d p" if "q \<in> set (Product d)" for q
  proof (cases "line_count d q = 0")
    case True then show ?thesis by simp
  next
    case False
    then have "(q, line_count d q) \<in> set (grouped d)" using that by (simp add: grouped_member)
    with le m show ?thesis by fastforce
  qed
  with m show ?thesis by simp
qed

text \<open>
  C3. The query keeps the products that have at least one order line and returns the one
  with the most lines: the product returned is in the table, has a line, and no product
  has more lines. It returns none exactly when no product has a line, so on a database
  without order lines it returns none, and the handler then sends the text that no
  information was found. On every database whose products are \<open>pa\<close> with three lines and
  \<open>pb\<close> with one, in either order, it returns \<open>pa\<close>.
\<close>

theorem most_ordered_product_top:
  "(most_ordered_product d = Some p \<longrightarrow>
      p \<in> set (Product d) \<and> 0 < line_count d p \<and>
      (\<forall>q\<in>set (Product d). line_count d q \<le> line_count d p)) \<and>
   (most_ordered_product d = None \<longleftrightarrow> (\<forall>q\<in>set (Product d). line_count d q = 0)) \<and>
   (OrderProducts d = [] \<longrightarrow> most_ordered_product d = None) \<and>
   (set (Product d) = {pa, pb} \<and> line_count d pa = 3 \<and> line_count d pb = 1 \<longrightarrow>
      most_ordered_product d = Some pa) \<and>
   (most_ordered_product (db e) = None \<longrightarrow>
      show_most_ordered_product e q =
        ([Log Info ''Fetching the most ordered product'', Log Info ''Most ordered product: '',
          Send q (ascii ''No se encontr'' @ [243] @ ascii '' informaci'' @ [243] @
                  ascii ''n sobre el producto m'' @ [225] @ ascii ''s pedido.'')
            None (Some [return_otros_row])], None))"
proof -
  have a: "most_ordered_product d = None \<longleftrightarrow> (\<forall>q\<in>set (Product d). line_count d q = 0)"
    by (simp add: most_ordered_None grouped_empty)
  have b: "most_ordered_product d = None" if "OrderProducts d = []"
    using that by (simp add: a line_count_def)
  have c: "most_ordered_product d = Some pa"
    if h: "set (Product d) = {pa, pb}" "line_count d pa = 3" "line_count d pb = 1"
  proof (cases "most_ordered_product d")
    case None
    with a h show ?thesis by auto
  next
    case (Some r)
    from most_ordered_Some [OF Some] h have "r = pa" by auto
    with Some show ?thesis by simp
  qed
  have e: "show_most_ordered_product e q =
        ([Log Info ''Fetching the most ordered product'', Log Info ''Most ordered product: '',
          Send q (ascii ''No se encontr'' @ [243] @ ascii '' informaci'' @ [243] @
                  ascii ''n sobre el producto m'' @ [225] @ ascii ''s pedido.'')
            None (Some [return_otros_row])], None)"
    if "most_ordered_product (db e) = None"
    using that by (simp add: show_most_ordered_product_def no_information_text_def)
  from a b c e most_ordered_Some show ?thesis by blast
qed

lemma fixture_line_counts:
  "line_count fixture_db P1 = 3 \<and> line_count fixture_db P2 = 1 \<and>
   set (Product fixture_db) = {P1, P2}"
  by (auto simp: line_count_def fixture_defs)

theorem most_ordered_product_top_witness:
  "set (Product fixture_db) = {P1, P2} \<and> line_count fixture_db P1 = 3 \<and>
   line_count fixture_db P2 = 1 \<and> most_ordered_product fixture_db = Some P1 \<and>
   P1 \<in> set (Product fixture_db) \<and>
   line_count fixture_db P2 \<le> line_count fixture_db P1 \<and>
   OrderProducts empty_db = [] \<and> most_ordered_product empty_db = None \<and>
   line_count empty_db P1 = 0 \<and>
   most_ordered_product (db empty_env) = None \<and>
   show_most_ordered_product empty_env Reply_text =
     ([Log Info ''Fetching the most ordered product'', Log Info ''Most ordered product: '',
       Send Reply_text (ascii ''No se encontr'' @ [243] @ ascii '' informaci'' @ [243] @
                        ascii ''n sobre el producto m'' @ [225] @ ascii ''s pedido.'')
         None (Some [return_otros_row])], None)"
proof -
  note t1 = most_ordered_product_top [where d = fixture_db and p = P1 and pa = P1 and pb = P2]
  note t2 = most_ordered_product_top [where d = empty_db and e = empty_env and q = Reply_text]
  have f: "most_ordered_product fixture_db = Some P1"
    using t1 [THEN conjunct2, THEN conjunct2, THEN conjunct2, THEN conjunct1]
      fixture_line_counts by blast
  have g: "P1 \<in> set (Product fixture_db) \<and>
     (\<forall>q\<in>set (Product fixture_db). line_count fixture_db q \<le> line_count fixture_db P1)"
    using t1 [THEN conjunct1] f by blast
  have o: "OrderProducts empty_db = []"
    by (simp add: empty_db_def)
  have n: "most_ordered_product empty_db = None"
    using t2 [THEN conjunct2, THEN conjunct2, THEN conjunct1] o by blast
  have z: "\<forall>q\<in>set (Product empty_db). line_count empty_db q = 0"
    using t2 [THEN conjunct2, THEN conjunct1] n by blast
  have d: "db empty_env = empty_db"
    by (simp add: empty_env_def fixture_env_def)
  have r: "show_most_ordered_product empty_env Reply_text =
     ([Log Info ''Fetching the most ordered product'', Log Info ''Most ordered product: '',
       Send Reply_text (ascii ''No se encontr'' @ [243] @ ascii '' informaci'' @ [243] @
                        ascii ''n sobre el producto m'' @ [225] @ ascii ''s pedido.'')
         None (Some [return_otros_row])], None)"
    using t2 [THEN conjunct2, THEN conjunct2, THEN conjunct2, THEN conjunct2] n d by simp
  have g': "line_count fixture_db P2 \<le> line_count fixture_db P1"
    using g fixture_line_counts by blast
  have z': "line_count empty_db P1 = 0"
    using z by (simp add: empty_db_def)
  from fixture_line_counts f g g' o n z' r d show ?thesis by simp
qed

subsection \<open>Digits, prices and button rows\<close>

lemma py_str_nat_digits: "py_str_nat n \<noteq> [] \<and> (\<forall>c\<in>set (py_str_nat n). is_ascii_digit c)"
proof (induction n rule: py_str_nat.induct)
  case (1 n)
  show ?case
  proof (cases "n < 10")
    case True
    then show ?thesis by (subst (1 2) py_str_nat.simps) (simp add: is_ascii_digit_def)
  next
    case False
    have "n mod 10 < 10" by simp
    then have "is_ascii_digit (48 + n mod 10)" unfolding is_ascii_digit_def by linarith
    with False 1 show ?thesis by (subst (1 2) py_str_nat.simps) simp
  qed
qed

lemma digits_value_snoc: "digits_value (ds @ [c]) = 10 * digits_value ds + (c - 48)"
  by (simp add: digits_value_def)

lemma digits_value_str: "digits_value (py_str_nat n) = n"
proof (induction n rule: py_str_nat.induct)
  case (1 n)
  show ?case
  proof (cases "n < 10")
    case True
    then show ?thesis by (subst py_str_nat.simps) (simp add: digits_value_def)
  next
    case False
    with 1 have "digits_value (py_str_nat (n div 10)) = n div 10" by simp
    with False show ?thesis
      by (subst py_str_nat.simps) (simp add: digits_value_snoc)
  qed
qed

lemma digits_value_two:
  "digits_value (ds @ [48 + a, 48 + b]) = 100 * digits_value ds + 10 * a + b"
proof -
  have "digits_value ((ds @ [48 + a]) @ [48 + b]) = 10 * (10 * digits_value ds + a) + b"
    by (simp only: digits_value_snoc add_diff_cancel_left')
  then show ?thesis by simp
qed

lemma digits_value_hundredths:
  "digits_value (py_str_nat (h div 100) @ [48 + (h mod 100) div 10, 48 + (h mod 100) mod 10]) = h"
proof -
  define m where "m = h mod 100"
  have a: "h = 100 * (h div 100) + m"
    unfolding m_def by (rule mult_div_mod_eq [symmetric])
  have b: "m = 10 * (m div 10) + m mod 10"
    by (rule mult_div_mod_eq [symmetric])
  have "digits_value (py_str_nat (h div 100) @ [48 + m div 10, 48 + m mod 10]) =
      100 * (h div 100) + 10 * (m div 10) + m mod 10"
    by (simp only: digits_value_two digits_value_str)
  also have "\<dots> = h" using a b by linarith
  finally show ?thesis unfolding m_def .
qed

lemma hundredths_exact: "- 2 \<le> x \<Longrightarrow> hundredths c x = c * 10 ^ nat (x + 2)"
  by (simp add: hundredths_def)

lemma hundredths_nearest:
  assumes "x < - 2"
  shows "2 * \<bar>int c - int (hundredths c x) * 10 ^ nat (- 2 - x)\<bar> \<le> 10 ^ nat (- 2 - x)"
proof -
  define k where "k = nat (- 2 - x)"
  define m :: nat where "m = 10 ^ k"
  define q where "q = c div m"
  define r where "r = c mod m"
  have c: "c = q * m + r" by (simp add: q_def r_def)
  have r: "r < m" by (simp add: r_def m_def)
  have h: "hundredths c x = (if m < 2 * r \<or> (2 * r = m \<and> odd q) then q + 1 else q)"
    using assms by (simp add: hundredths_def Let_def k_def m_def q_def r_def)
  have "2 * \<bar>int c - int (hundredths c x) * int m\<bar> \<le> int m"
  proof (cases "m < 2 * r \<or> (2 * r = m \<and> odd q)")
    case True
    then have "hundredths c x = q + 1" using h by simp
    then have "int c - int (hundredths c x) * int m = int r - int m"
      by (simp add: c algebra_simps)
    with r True show ?thesis by auto
  next
    case False
    then have "hundredths c x = q" using h by simp
    then have "int c - int (hundredths c x) * int m = int r"
      by (simp add: c)
    with False show ?thesis by auto
  qed
  then show ?thesis by (simp add: m_def k_def)
qed

lemma format_2f_finite:
  "format_2f (Finite negative c x) =
     (if negative then [45] else []) @ py_str_nat (hundredths c x div 100) @
     [46, 48 + (hundredths c x mod 100) div 10, 48 + (hundredths c x mod 100) mod 10]"
  by (simp add: format_2f_def Let_def)

lemma two_digits:
  "is_ascii_digit (48 + (h mod 100) div 10) \<and> is_ascii_digit (48 + (h mod 100) mod 10)"
proof -
  have "(h mod 100) div 10 < 10" "(h mod 100) mod 10 < 10" by simp_all
  then show ?thesis unfolding is_ascii_digit_def by linarith
qed

lemma format_2f_two_decimals: "two_decimals (format_2f (Finite negative c x))"
proof -
  define h where "h = hundredths c x"
  define ip where "ip = (if negative then [45] else []) @ py_str_nat (h div 100)"
  have f: "format_2f (Finite negative c x) =
      ip @ [46, 48 + (h mod 100) div 10, 48 + (h mod 100) mod 10]"
    by (simp add: format_2f_finite h_def ip_def)
  have n: "ip \<noteq> []" using py_str_nat_digits [of "h div 100"] by (simp add: ip_def)
  have "\<forall>c\<in>set ip. c = 45 \<or> is_ascii_digit c"
    using py_str_nat_digits [of "h div 100"] by (auto simp: ip_def)
  then have p: "46 \<notin> set ip" by (auto simp: is_ascii_digit_def)
  show ?thesis
    unfolding f two_decimals_def using two_digits [of h] n p by (simp split: list.splits)
qed

lemma read_2f_format: "read_2f (format_2f (Finite negative c x)) = Some (negative, hundredths c x)"
proof -
  define h where "h = hundredths c x"
  define ds where "ds = py_str_nat (h div 100)"
  define d1 where "d1 = 48 + (h mod 100) div 10"
  define d2 where "d2 = 48 + (h mod 100) mod 10"
  have n: "ds \<noteq> []" and a: "list_all is_ascii_digit ds"
    using py_str_nat_digits [of "h div 100"] by (simp_all add: ds_def list_all_iff)
  then have hd: "hd ds \<noteq> 45"
    by (cases ds) (auto simp: is_ascii_digit_def)
  have v: "digits_value (ds @ [d1, d2]) = h"
    unfolding ds_def d1_def d2_def by (rule digits_value_hundredths)
  have t: "list_all is_ascii_digit (ds @ [d1, d2])"
    using a two_digits [of h] by (simp add: d1_def d2_def)
  show ?thesis
  proof (cases negative)
    case True
    then have "format_2f (Finite negative c x) = (45 # ds) @ [46, d1, d2]"
      by (simp add: format_2f_finite h_def ds_def d1_def d2_def)
    then show ?thesis
      using n t v True by (simp add: read_2f_def h_def)
  next
    case False
    then have "format_2f (Finite negative c x) = ds @ [46, d1, d2]"
      by (simp add: format_2f_finite h_def ds_def d1_def d2_def)
    then show ?thesis
      using n t v hd False by (cases ds) (simp_all add: read_2f_def h_def)
  qed
qed

lemma product_rows_Inr:
  "product_rows ps = Inr rows \<Longrightarrow>
     (\<forall>p\<in>set ps. price p \<noteq> None) \<and>
     rows = map (\<lambda>p. [\<lparr>button_text = product_label (Product_name p) (format_2f (the (price p))),
                         callback_data = ascii ''product_'' @ py_str_int (Product_id p)\<rparr>]) ps"
proof (induction ps arbitrary: rows)
  case Nil
  then show ?case by simp
next
  case (Cons p ps)
  then show ?case by (auto split: option.splits sum.splits)
qed


subsection \<open>Products of a category\<close>

text \<open>
  C5, as the code has it. For every database and every category identifier that the
  driver binds as the parameter of the query, the products listed are the rows of the
  product table whose category identifier equals the argument, all of them and no other.
  When no product has that identifier, whether or not a category with it exists, the list
  is empty and the handler sends the text that no products are available, without
  buttons, and raises nothing. When the list is not empty and every price can be
  formatted, the handler sends one button per listed product, in order, each carrying the
  token of its product. For an identifier the driver refuses, the query raises the
  driver's exception and the handler ends with it after its first log entry, having sent
  nothing.
\<close>

theorem show_products_by_category:
  "(products_of_category e c = Inr ps \<longrightarrow>
      (\<forall>p\<in>set ps. p \<in> set (Product (db e)) \<and> categoryId p = Some c) \<and>
      (\<forall>p\<in>set (Product (db e)). categoryId p = Some c \<longrightarrow> p \<in> set ps)) \<and>
   (bind_int e c = None \<longrightarrow> (\<exists>found. products_of_category e c = Inr found)) \<and>
   (bind_int e c = None \<and> (\<forall>p\<in>set (Product (db e)). categoryId p \<noteq> Some c) \<longrightarrow>
      products_of_category e c = Inr [] \<and>
      show_products e q c =
        ([Log Info ''Fetching products for category '', Log Info ''Found products: '',
          Send q (ascii ''No hay productos disponibles en esta categor'' @ [237] @ ascii ''a.'')
            None None], None)) \<and>
   (products_of_category e c = Inr ps \<and> ps \<noteq> [] \<and> product_rows ps = Inr rows \<longrightarrow>
      show_products e q c =
        ([Log Info ''Fetching products for category '', Log Info ''Found products: '',
          Send q (ascii ''Selecciona un producto:'') None (Some (rows @ [return_categories_row]))],
         None) \<and>
      map (\<lambda>row. map callback_data row) rows =
        map (\<lambda>p. [ascii ''product_'' @ py_str_int (Product_id p)]) ps) \<and>
   (bind_int e c = Some err \<longrightarrow>
      products_of_category e c = Inl err \<and>
      show_products e q c = ([Log Info ''Fetching products for category ''], Some err))"
proof -
  have m: "(\<forall>p\<in>set ps. p \<in> set (Product (db e)) \<and> categoryId p = Some c) \<and>
      (\<forall>p\<in>set (Product (db e)). categoryId p = Some c \<longrightarrow> p \<in> set ps)"
    if "products_of_category e c = Inr ps"
    using that by (auto simp: products_of_category_def split: option.splits)
  have x: "\<exists>found. products_of_category e c = Inr found" if "bind_int e c = None"
    using that by (simp add: products_of_category_def)
  have a: "products_of_category e c = Inr []"
    if "bind_int e c = None" "\<forall>p\<in>set (Product (db e)). categoryId p \<noteq> Some c"
    using that by (simp add: products_of_category_def filter_empty_conv)
  have b: "show_products e q c =
        ([Log Info ''Fetching products for category '', Log Info ''Found products: '',
          Send q (ascii ''No hay productos disponibles en esta categor'' @ [237] @ ascii ''a.'')
            None None], None)"
    if "products_of_category e c = Inr []"
    using that by (simp add: show_products_def no_products_text_def)
  have d: "map (\<lambda>row. map callback_data row) rows =
        map (\<lambda>p. [ascii ''product_'' @ py_str_int (Product_id p)]) ps"
    if "product_rows ps = Inr rows"
    using product_rows_Inr [OF that] by simp
  have f: "show_products e q c =
        ([Log Info ''Fetching products for category '', Log Info ''Found products: '',
          Send q (ascii ''Selecciona un producto:'') None (Some (rows @ [return_categories_row]))],
         None)"
    if "products_of_category e c = Inr ps" "ps \<noteq> []" "product_rows ps = Inr rows"
    using that by (simp add: show_products_def)
  have r: "products_of_category e c = Inl err \<and>
      show_products e q c = ([Log Info ''Fetching products for category ''], Some err)"
    if "bind_int e c = Some err"
    using that by (simp add: show_products_def products_of_category_def)
  from m x a b d f r show ?thesis by blast
qed

lemma fixture_products_1: "products_of_category fixture_env 1 = Inr [P1]"
  by (simp add: products_of_category_def fixture_defs)

lemma fixture_products_9:
  "bind_int fixture_env 9 = None \<and> (\<forall>p\<in>set (Product (db fixture_env)). categoryId p \<noteq> Some 9)"
  by (simp add: fixture_defs)

lemma fixture_rows_1:
  "product_rows [P1] =
     Inr [[\<lparr>button_text = product_label (Product_name P1) (format_2f (Finite False 150 (- 2))),
             callback_data = ascii ''product_'' @ py_str_int (Product_id P1)\<rparr>]]"
  by (simp add: P1_def)

lemma fixture_bind_large: "bind_int fixture_env 9223372036854775808 = Some OverflowError"
  by (simp add: fixture_env_def)

theorem show_products_by_category_witness:
  "bind_int fixture_env 9 = None \<and>
   categoryId P1 \<noteq> Some 9 \<and> categoryId P2 \<noteq> Some 9 \<and>
   products_of_category fixture_env 9 = Inr [] \<and>
   show_products fixture_env Edit_message_text 9 =
     ([Log Info ''Fetching products for category '', Log Info ''Found products: '',
       Send Edit_message_text
         (ascii ''No hay productos disponibles en esta categor'' @ [237] @ ascii ''a.'')
         None None], None) \<and>
   products_of_category fixture_env 1 = Inr [P1] \<and> categoryId P1 = Some 1 \<and>
   P1 \<in> set (Product (db fixture_env)) \<and>
   show_products fixture_env Edit_message_text 1 =
     ([Log Info ''Fetching products for category '', Log Info ''Found products: '',
       Send Edit_message_text (ascii ''Selecciona un producto:'') None
         (Some ([[\<lparr>button_text = product_label (Product_name P1)
                                    (format_2f (Finite False 150 (- 2))),
                    callback_data = ascii ''product_'' @ py_str_int (Product_id P1)\<rparr>]] @
                [return_categories_row]))], None) \<and>
   bind_int fixture_env 9223372036854775808 = Some OverflowError \<and>
   show_products fixture_env Edit_message_text 9223372036854775808 =
     ([Log Info ''Fetching products for category ''], Some OverflowError)"
proof -
  let ?rows = "[[\<lparr>button_text = product_label (Product_name P1)
                                  (format_2f (Finite False 150 (- 2))),
                  callback_data = ascii ''product_'' @ py_str_int (Product_id P1)\<rparr>]]"
  note t9 = show_products_by_category [where e = fixture_env and c = 9 and q = Edit_message_text]
  note t1 = show_products_by_category
    [where e = fixture_env and c = 1 and q = Edit_message_text and rows = ?rows
       and ps = "[P1]"]
  note tl = show_products_by_category
    [where e = fixture_env and c = 9223372036854775808 and q = Edit_message_text
       and err = OverflowError]
  have a: "products_of_category fixture_env 9 = Inr [] \<and>
     show_products fixture_env Edit_message_text 9 =
     ([Log Info ''Fetching products for category '', Log Info ''Found products: '',
       Send Edit_message_text
         (ascii ''No hay productos disponibles en esta categor'' @ [237] @ ascii ''a.'')
         None None], None)"
    using t9 [THEN conjunct2, THEN conjunct2, THEN conjunct1] fixture_products_9 by blast
  have b: "P1 \<in> set (Product (db fixture_env)) \<and> categoryId P1 = Some 1"
    using t1 [THEN conjunct1] fixture_products_1 by simp
  have s: "show_products fixture_env Edit_message_text 1 =
     ([Log Info ''Fetching products for category '', Log Info ''Found products: '',
       Send Edit_message_text (ascii ''Selecciona un producto:'') None
         (Some (?rows @ [return_categories_row]))], None)"
    using t1 [THEN conjunct2, THEN conjunct2, THEN conjunct2, THEN conjunct1]
      fixture_products_1 fixture_rows_1 by blast
  have k: "categoryId P1 \<noteq> Some 9 \<and> categoryId P2 \<noteq> Some 9"
    by (simp add: P1_def P2_def)
  have l: "show_products fixture_env Edit_message_text 9223372036854775808 =
     ([Log Info ''Fetching products for category ''], Some OverflowError)"
    using tl [THEN conjunct2, THEN conjunct2, THEN conjunct2, THEN conjunct2]
      fixture_bind_large by blast
  have n: "bind_int fixture_env 9 = None"
    using fixture_products_9 by blast
  from n k a fixture_products_1 b s fixture_bind_large l show ?thesis by blast
qed

theorem show_products_by_category_counterexample:
  "Product (db fixture_env) = [P2, P1] \<and>
   categoryId P1 \<noteq> Some 9223372036854775808 \<and>
   categoryId P2 \<noteq> Some 9223372036854775808 \<and>
   products_of_category fixture_env 9223372036854775808 = Inl OverflowError \<and>
   show_products fixture_env Edit_message_text 9223372036854775808 =
     ([Log Info ''Fetching products for category ''], Some OverflowError)"
  by (simp add: show_products_def products_of_category_def fixture_defs)


subsection \<open>Two decimal digits\<close>

text \<open>
  Every finite price is rendered with exactly two decimal digits, and the text stands
  for the price: read back, it gives the sign of the price and its number of hundredths,
  which is the price itself when its exponent is \<open>-2\<close> or more, and else the hundredth
  nearest to it.
\<close>

lemma finite_price_two_decimals:
  "two_decimals (format_2f (Finite negative c x)) \<and>
   read_2f (format_2f (Finite negative c x)) = Some (negative, hundredths c x) \<and>
   (- 2 \<le> x \<longrightarrow> hundredths c x = c * 10 ^ nat (x + 2)) \<and>
   (x < - 2 \<longrightarrow>
      2 * \<bar>int c - int (hundredths c x) * 10 ^ nat (- 2 - x)\<bar> \<le> 10 ^ nat (- 2 - x))"
  using format_2f_two_decimals [of negative c x] read_2f_format [of negative c x]
    hundredths_exact [of x c] hundredths_nearest [of x c]
  by blast

text \<open>
  The label of every product button is the product's name, \<open> - $\<close> and its price as
  \<open>format_2f\<close> writes it, and the most-ordered-product answer contains the price of the
  product found, written so.
\<close>

lemma rendered_prices:
  "(product_rows ps = Inr rows \<longrightarrow>
      length rows = length ps \<and>
      (\<forall>i<length ps. \<exists>d. price (ps ! i) = Some d \<and>
          map button_text (rows ! i) = [Product_name (ps ! i) @ ascii '' - $'' @ format_2f d])) \<and>
   (most_ordered_product (db e) = Some p \<and> price p = Some d' \<longrightarrow>
      show_most_ordered_product e q =
        ([Log Info ''Fetching the most ordered product'', Log Info ''Most ordered product: '',
          Send q (ascii ''El producto m'' @ [225] @ ascii ''s pedido es '' @ Product_name p @
                  ascii '' a un precio de $'' @ format_2f d' @ ascii ''.'')
            None (Some [return_otros_row])], None))"
proof -
  have a: "length rows = length ps \<and>
      (\<forall>i<length ps. \<exists>d. price (ps ! i) = Some d \<and>
          map button_text (rows ! i) = [Product_name (ps ! i) @ ascii '' - $'' @ format_2f d])"
    if r: "product_rows ps = Inr rows"
  proof -
    note k = product_rows_Inr [OF r]
    have "\<exists>d. price (ps ! i) = Some d \<and>
          map button_text (rows ! i) = [Product_name (ps ! i) @ ascii '' - $'' @ format_2f d]"
      if "i < length ps" for i
    proof -
      from that k obtain d where d: "price (ps ! i) = Some d" by fastforce
      with that k have "map button_text (rows ! i) =
          [Product_name (ps ! i) @ ascii '' - $'' @ format_2f d]"
        by (simp add: product_label_def)
      with d show ?thesis by simp
    qed
    moreover have "length rows = length ps" using k by simp
    ultimately show ?thesis by blast
  qed
  have b: "show_most_ordered_product e q =
        ([Log Info ''Fetching the most ordered product'', Log Info ''Most ordered product: '',
          Send q (ascii ''El producto m'' @ [225] @ ascii ''s pedido es '' @ Product_name p @
                  ascii '' a un precio de $'' @ format_2f d' @ ascii ''.'')
            None (Some [return_otros_row])], None)"
    if "most_ordered_product (db e) = Some p" "price p = Some d'"
    using that by (simp add: show_most_ordered_product_def most_ordered_text_def)
  from a b show ?thesis by blast
qed

lemma format_2f_150: "format_2f (Finite False 150 (- 2)) = ascii ''1.50''"
  by (simp add: format_2f_def hundredths_def ascii_def py_str_nat.simps)

lemma format_2f_rounds: "format_2f (Finite True 7995 (- 3)) = ascii ''-8.00''"
  by (simp add: format_2f_def hundredths_def ascii_def py_str_nat.simps Let_def)

lemma str_3: "py_str_int 3 = ascii ''3''"
  by (simp add: py_str_int_def py_str_nat.simps ascii_def)

text \<open>
  C7, at a product whose price is the decimal \<open>NaN\<close>. The product list renders its
  button as \<open>Oro - $NaN\<close> and the most-ordered-product answer ends with \<open>$NaN.\<close>: the
  price rendered has no decimal digits. An infinite price is rendered as \<open>Infinity\<close>
  in the same way.
\<close>

theorem nan_price_rendering:
  "price P3 = Some NaN \<and>
   format_2f NaN = ascii ''NaN'' \<and> \<not> two_decimals (ascii ''NaN'') \<and>
   show_products nan_env Edit_message_text 3 =
     ([Log Info ''Fetching products for category '', Log Info ''Found products: '',
       Send Edit_message_text (ascii ''Selecciona un producto:'') None
         (Some [[\<lparr>button_text = ascii ''Oro - $NaN'',
                   callback_data = ascii ''product_3''\<rparr>],
                return_categories_row])], None) \<and>
   show_most_ordered_product nan_env Reply_text =
     ([Log Info ''Fetching the most ordered product'', Log Info ''Most ordered product: '',
       Send Reply_text (ascii ''El producto m'' @ [225] @
                        ascii ''s pedido es Oro a un precio de $NaN.'')
         None (Some [return_otros_row])], None) \<and>
   format_2f (Infinity False) = ascii ''Infinity'' \<and> \<not> two_decimals (ascii ''Infinity'')"
proof -
  have p: "price P3 = Some NaN"
    by (simp add: P3_def)
  have f: "format_2f NaN = ascii ''NaN''"
    by (simp add: format_2f_def)
  have n: "\<not> two_decimals (ascii ''NaN'')"
    by (simp add: two_decimals_def ascii_def)
  have l: "products_of_category nan_env 3 = Inr [P3]"
    by (simp add: products_of_category_def fixture_defs)
  have r: "product_rows [P3] =
      Inr [[\<lparr>button_text = ascii ''Oro - $NaN'', callback_data = ascii ''product_3''\<rparr>]]"
    by (simp add: P3_def product_label_def f str_3 ascii_def)
  have s: "show_products nan_env Edit_message_text 3 =
     ([Log Info ''Fetching products for category '', Log Info ''Found products: '',
       Send Edit_message_text (ascii ''Selecciona un producto:'') None
         (Some [[\<lparr>button_text = ascii ''Oro - $NaN'',
                   callback_data = ascii ''product_3''\<rparr>],
                return_categories_row])], None)"
    by (simp add: show_products_def l r del: product_rows.simps)
  have m: "most_ordered_product (db nan_env) = Some P3"
    by (simp add: most_ordered_product_def grouped_def line_count_def fixture_defs)
  have a: "show_most_ordered_product nan_env Reply_text =
     ([Log Info ''Fetching the most ordered product'', Log Info ''Most ordered product: '',
       Send Reply_text (ascii ''El producto m'' @ [225] @
                        ascii ''s pedido es Oro a un precio de $NaN.'')
         None (Some [return_otros_row])], None)"
    using m p by (simp add: show_most_ordered_product_def most_ordered_text_def f)
       (simp add: P3_def ascii_def)
  have i: "format_2f (Infinity False) = ascii ''Infinity''"
    by (simp add: format_2f_def)
  have j: "\<not> two_decimals (ascii ''Infinity'')"
    by (simp add: two_decimals_def ascii_def is_ascii_digit_def)
  from p f n s a i j show ?thesis by blast
qed

subsection \<open>The prompt and the stored history\<close>

lemma no_completion_member:
  "\<not> list_ex is_completion xs \<Longrightarrow> ChatCompletion msgs \<notin> set xs"
  by (auto simp: list_ex_iff is_completion_def)

lemma stored_history_simps:
  "stored_history (cd\<lparr>conversation_history := Some h\<rparr>) = h"
  by (simp add: stored_history_def)

lemma keyword_free:
  assumes "update_message u = Some m"
  shows "\<not> reaches_completion e (message_text m) \<longrightarrow>
            \<not> list_ex is_completion (effects (handle_text e u cd)) \<and>
            chat (handle_text e u cd) = cd"
  using assms show_categories_no_completion [of e Reply_text]
    show_most_ordered_no_completion [of e Reply_text]
  by (simp add: handle_text_def reaches_completion_def finish_def
      and_then_def is_completion_def Let_def)

lemma handle_text_step:
  assumes inv: "\<forall>t\<in>set (stored_history cd). role t \<noteq> System"
  shows "(\<forall>t\<in>set (stored_history (chat (handle_text e u cd))). role t \<noteq> System) \<and>
         (\<forall>msgs. ChatCompletion msgs \<in> set (effects (handle_text e u cd)) \<longrightarrow>
            (\<exists>h. msgs = system_context e # h \<and> (\<forall>t\<in>set h. role t \<noteq> System)))"
proof (cases "update_message u")
  case None
  then show ?thesis using inv by (simp add: handle_text_def finish_def)
next
  case (Some m)
  show ?thesis
  proof (cases "reaches_completion e (message_text m)")
    case False
    have c: "chat (handle_text e u cd) = cd"
      and n: "\<not> list_ex is_completion (effects (handle_text e u cd))"
      using keyword_free [OF Some, of e cd] False by simp_all
    from n have "ChatCompletion msgs \<notin> set (effects (handle_text e u cd))" for msgs
      by (rule no_completion_member)
    with c inv show ?thesis by simp
  next
    case True
    let ?h = "stored_history cd @ [user_turn (message_text m)]"
    have h: "\<forall>t\<in>set ?h. role t \<noteq> System"
      using inv by (simp add: user_turn_def)
    show ?thesis
    proof (cases "completion e (prompt_messages e ?h)")
      case (Inl err)
      then show ?thesis
        using Some True h
        by (simp add: handle_text_def reaches_completion_def stored_history_def user_turn_def
            prompt_messages_def Let_def)
    next
      case (Inr answer)
      then show ?thesis
        using Some True h
        by (simp add: handle_text_def reaches_completion_def stored_history_def user_turn_def
            prompt_messages_def Let_def)
    qed
  qed
qed


lemma handle_texts_invariant:
  "\<forall>t\<in>set (stored_history cd). role t \<noteq> System \<Longrightarrow>
     (\<forall>t\<in>set (stored_history (snd (handle_texts e us cd))). role t \<noteq> System) \<and>
     (\<forall>msgs. ChatCompletion msgs \<in> set (fst (handle_texts e us cd)) \<longrightarrow>
        (\<exists>h. msgs = system_context e # h \<and> (\<forall>t\<in>set h. role t \<noteq> System)))"
proof (induction us arbitrary: cd)
  case Nil
  then show ?case by simp
next
  case (Cons u us)
  note s = handle_text_step [OF Cons.prems, of e u]
  from s have "\<forall>t\<in>set (stored_history (chat (handle_text e u cd))). role t \<noteq> System"
    by blast
  from Cons.IH [OF this] s show ?case
    by (auto simp: Let_def)
qed

lemma system_context_role: "role (system_context e) = System"
  by (simp add: system_context_def)

text \<open>
  C6. For every chat history: when a free text reaches the completion call and the call
  answers, the prompt sent is the system turn followed by the history with the user's turn
  appended, the history afterwards is the history before followed by the user's turn and
  the assistant's turn, and the prompt built from it is the system turn followed by that
  history, in that order. The handler stores no system turn: over every sequence of free
  texts of a chat whose history holds none, the history never holds one, and every prompt
  sent to the endpoint starts with the system turn and contains it exactly once.
\<close>

theorem prompt_round_trip:
  "(update_message u = Some m \<and> reaches_completion e (message_text m) \<and>
    completion e (prompt_messages e (stored_history cd @ [user_turn (message_text m)])) =
      Inr answer \<longrightarrow>
      effects (handle_text e u cd) =
        [Log Info ''Received message from user: '',
         ChatCompletion (system_context e # stored_history cd @ [user_turn (message_text m)]),
         Send Reply_text (py_strip answer) None None] \<and>
      stored_history (chat (handle_text e u cd)) =
        stored_history cd @
        [user_turn (message_text m), assistant_turn (py_strip answer)] \<and>
      prompt_messages e (stored_history (chat (handle_text e u cd))) =
        system_context e # stored_history cd @
        [user_turn (message_text m), assistant_turn (py_strip answer)]) \<and>
   ((\<forall>t\<in>set (stored_history cd). role t \<noteq> System) \<longrightarrow>
      (\<forall>t\<in>set (stored_history (snd (handle_texts e us cd))). role t \<noteq> System) \<and>
      (\<forall>msgs. ChatCompletion msgs \<in> set (fst (handle_texts e us cd)) \<longrightarrow>
         hd msgs = system_context e \<and>
         filter (\<lambda>t. role t = System) msgs = [system_context e]))"
proof -
  have a: "effects (handle_text e u cd) =
        [Log Info ''Received message from user: '',
         ChatCompletion (system_context e # stored_history cd @ [user_turn (message_text m)]),
         Send Reply_text (py_strip answer) None None] \<and>
      stored_history (chat (handle_text e u cd)) =
        stored_history cd @
        [user_turn (message_text m), assistant_turn (py_strip answer)] \<and>
      prompt_messages e (stored_history (chat (handle_text e u cd))) =
        system_context e # stored_history cd @
        [user_turn (message_text m), assistant_turn (py_strip answer)]"
    if "update_message u = Some m" "reaches_completion e (message_text m)"
      "completion e (prompt_messages e (stored_history cd @ [user_turn (message_text m)])) =
         Inr answer"
    using that
    by (simp add: handle_text_def reaches_completion_def stored_history_def user_turn_def
        assistant_turn_def prompt_messages_def Let_def)
  have b: "hd msgs = system_context e \<and>
         filter (\<lambda>t. role t = System) msgs = [system_context e]"
    if i: "\<forall>t\<in>set (stored_history cd). role t \<noteq> System"
      and c: "ChatCompletion msgs \<in> set (fst (handle_texts e us cd))" for msgs
  proof -
    from handle_texts_invariant [OF i, of e us] c
    obtain h where h: "msgs = system_context e # h" "\<forall>t\<in>set h. role t \<noteq> System"
      by blast
    then have "filter (\<lambda>t. role t = System) h = []"
      by (simp add: filter_empty_conv)
    with h show ?thesis by (simp add: system_context_role)
  qed
  have d: "\<forall>t\<in>set (stored_history (snd (handle_texts e us cd))). role t \<noteq> System"
    if "\<forall>t\<in>set (stored_history cd). role t \<noteq> System"
    using handle_texts_invariant [OF that, of e us] by blast
  from a b d show ?thesis by blast
qed

lemma reaches_fixture:
  "reaches_completion fixture_env (ascii ''Hola'') \<and>
   reaches_completion fixture_env (ascii ''Gracias'')"
  by (simp add: reaches_completion_def fixture_defs menu_keyword_def most_ordered_keywords_def
      ascii_def)

lemma strip_claro: "py_strip (ascii '' Claro. '') = ascii ''Claro.''"
  by (simp add: py_strip_def strip_with_def is_space_def ascii_def)

lemma fixture_completion: "completion fixture_env msgs = Inr (ascii '' Claro. '')"
  by (simp add: fixture_env_def)

theorem prompt_round_trip_witness:
  "update_message (text_update (ascii ''Hola'')) =
     Some \<lparr>message_first_name = ascii ''Ana'', message_chat_id = 77,
            message_text = ascii ''Hola''\<rparr> \<and>
   reaches_completion fixture_env (ascii ''Hola'') \<and>
   completion fixture_env (prompt_messages fixture_env
       (stored_history no_chat_data @ [user_turn (ascii ''Hola'')])) = Inr (ascii '' Claro. '') \<and>
   effects (handle_text fixture_env (text_update (ascii ''Hola'')) no_chat_data) =
     [Log Info ''Received message from user: '',
      ChatCompletion [system_context fixture_env, user_turn (ascii ''Hola'')],
      Send Reply_text (ascii ''Claro.'') None None] \<and>
   stored_history (chat (handle_text fixture_env (text_update (ascii ''Hola'')) no_chat_data)) =
     [user_turn (ascii ''Hola''), assistant_turn (ascii ''Claro.'')] \<and>
   prompt_messages fixture_env
     (stored_history (chat (handle_text fixture_env (text_update (ascii ''Hola'')) no_chat_data))) =
     [system_context fixture_env, user_turn (ascii ''Hola''), assistant_turn (ascii ''Claro.'')] \<and>
   ChatCompletion [system_context fixture_env, user_turn (ascii ''Hola''),
                   assistant_turn (ascii ''Claro.''), user_turn (ascii ''Gracias'')]
     \<in> set (fst (handle_texts fixture_env
                 [text_update (ascii ''Hola''), text_update (ascii ''Gracias'')] no_chat_data)) \<and>
   filter (\<lambda>t. role t = System)
     [system_context fixture_env, user_turn (ascii ''Hola''),
      assistant_turn (ascii ''Claro.''), user_turn (ascii ''Gracias'')] =
     [system_context fixture_env]"
proof -
  let ?m = "\<lparr>message_first_name = ascii ''Ana'', message_chat_id = 77,
             message_text = ascii ''Hola''\<rparr>"
  let ?g = "\<lparr>message_first_name = ascii ''Ana'', message_chat_id = 77,
             message_text = ascii ''Gracias''\<rparr>"
  let ?us = "[text_update (ascii ''Hola''), text_update (ascii ''Gracias'')]"
  let ?p2 = "[system_context fixture_env, user_turn (ascii ''Hola''),
              assistant_turn (ascii ''Claro.''), user_turn (ascii ''Gracias'')]"
  note t1 = prompt_round_trip [where u = "text_update (ascii ''Hola'')" and m = ?m
      and e = fixture_env and cd = no_chat_data and answer = "ascii '' Claro. ''" and us = ?us]
  have u1: "update_message (text_update (ascii ''Hola'')) = Some ?m"
    by (simp add: text_update_def)
  have e0: "stored_history no_chat_data = []"
    by (simp add: stored_history_def no_chat_data_def)
  have s1: "effects (handle_text fixture_env (text_update (ascii ''Hola'')) no_chat_data) =
     [Log Info ''Received message from user: '',
      ChatCompletion [system_context fixture_env, user_turn (ascii ''Hola'')],
      Send Reply_text (ascii ''Claro.'') None None] \<and>
    stored_history (chat (handle_text fixture_env (text_update (ascii ''Hola'')) no_chat_data)) =
     [user_turn (ascii ''Hola''), assistant_turn (ascii ''Claro.'')] \<and>
    prompt_messages fixture_env
     (stored_history (chat (handle_text fixture_env (text_update (ascii ''Hola'')) no_chat_data))) =
     [system_context fixture_env, user_turn (ascii ''Hola''), assistant_turn (ascii ''Claro.'')]"
    using t1 [THEN conjunct1] u1 reaches_fixture fixture_completion
    by (simp add: e0 strip_claro prompt_messages_def)
  define cd1 where "cd1 = chat (handle_text fixture_env (text_update (ascii ''Hola'')) no_chat_data)"
  have h1: "stored_history cd1 = [user_turn (ascii ''Hola''), assistant_turn (ascii ''Claro.'')]"
    using s1 by (simp add: cd1_def)
  have u2: "update_message (text_update (ascii ''Gracias'')) = Some ?g"
    by (simp add: text_update_def)
  have s2: "effects (handle_text fixture_env (text_update (ascii ''Gracias'')) cd1) =
     [Log Info ''Received message from user: '',
      ChatCompletion ?p2,
      Send Reply_text (ascii ''Claro.'') None None]"
    using prompt_round_trip [where u = "text_update (ascii ''Gracias'')" and m = ?g
      and e = fixture_env and cd = cd1 and answer = "ascii '' Claro. ''", THEN conjunct1]
      u2 reaches_fixture fixture_completion
    by (simp add: h1 strip_claro)
  have mem: "ChatCompletion ?p2 \<in> set (fst (handle_texts fixture_env ?us no_chat_data))"
    using s2 by (simp add: Let_def cd1_def)
  have i0: "\<forall>t\<in>set (stored_history no_chat_data). role t \<noteq> System"
    by (simp add: e0)
  have f: "filter (\<lambda>t. role t = System) ?p2 = [system_context fixture_env]"
    using t1 [THEN conjunct2] i0 mem by blast
  from u1 reaches_fixture fixture_completion s1 mem f show ?thesis by blast
qed

subsection \<open>The origin of a start event\<close>

text \<open>
  C8. A start event that carries neither a message nor a callback query makes \<open>start\<close> log
  a warning and return: it sends nothing and raises nothing. For an event that carries a
  message the display name and the chat identifier are those of the message; for an event
  that carries only a callback query they are those of the query; and these are the name
  and the identifier the greeting is filled with and the channel the two messages go
  through.
\<close>

theorem start_origin:
  "(update_message u = None \<and> update_callback_query u = None \<longrightarrow>
      start e u =
        ([Log Info ''Handling /start command'',
          Log Warning ''Update does not have message or callback_query''], None) \<and>
      \<not> list_ex is_render (fst (start e u))) \<and>
   (update_message u = Some m \<longrightarrow>
      resolve_origin u = Some (Reply_text, message_first_name m, message_chat_id m)) \<and>
   (update_message u = None \<and> update_callback_query u = Some query \<longrightarrow>
      resolve_origin u = Some (Edit_text, query_first_name query, query_chat_id query)) \<and>
   (resolve_origin u = Some (ch, name, cid) \<and>
    responses e ''greeting_message'' = Some template \<and>
    format_greeting e template name ([96] @ py_str_int cid @ [96]) = Inr greeting_message \<and>
    responses e ''menu_message'' = Some menu_message \<longrightarrow>
      start e u =
        ([Log Info ''Handling /start command'', Log Info ''Chat ID: '',
          Send ch greeting_message (Some ''Markdown'') None,
          Send ch menu_message None (Some start_keyboard)], None))"
  by (simp add: start_def resolve_origin_def is_render_def and_then_def Let_def)

lemma str_77: "py_str_int 77 = ascii ''77''"
  by (simp add: py_str_int_def py_str_nat.simps ascii_def)

theorem start_origin_witness:
  "update_message bare_update = None \<and> update_callback_query bare_update = None \<and>
   start fixture_env bare_update =
     ([Log Info ''Handling /start command'',
       Log Warning ''Update does not have message or callback_query''], None) \<and>
   \<not> list_ex is_render (fst (start fixture_env bare_update)) \<and>
   resolve_origin (text_update (ascii ''/start'')) = Some (Reply_text, ascii ''Ana'', 77) \<and>
   resolve_origin (callback_update (ascii ''return_start'')) = Some (Edit_text, ascii ''Ana'', 77) \<and>
   start fixture_env (callback_update (ascii ''return_start'')) =
     ([Log Info ''Handling /start command'', Log Info ''Chat ID: '',
       Send Edit_text (ascii ''Hola Ana `77`'') (Some ''Markdown'') None,
       Send Edit_text (ascii ''Elige'') None (Some start_keyboard)], None)"
proof -
  let ?m = "\<lparr>message_first_name = ascii ''Ana'', message_chat_id = 77,
             message_text = ascii ''/start''\<rparr>"
  let ?q = "\<lparr>query_first_name = ascii ''Ana'', query_chat_id = 77,
             query_data = ascii ''return_start''\<rparr>"
  note t0 = start_origin [where u = bare_update and e = fixture_env]
  note t1 = start_origin [where u = "text_update (ascii ''/start'')" and m = ?m]
  note t2 = start_origin [where u = "callback_update (ascii ''return_start'')" and query = ?q
      and e = fixture_env and ch = Edit_text and name = "ascii ''Ana''" and cid = 77
      and template = "ascii ''Hola''" and greeting_message = "ascii ''Hola Ana `77`''"
      and menu_message = "ascii ''Elige''"]
  have b: "update_message bare_update = None \<and> update_callback_query bare_update = None"
    by (simp add: bare_update_def)
  have a: "start fixture_env bare_update =
     ([Log Info ''Handling /start command'',
       Log Warning ''Update does not have message or callback_query''], None) \<and>
     \<not> list_ex is_render (fst (start fixture_env bare_update))"
    using t0 [THEN conjunct1] b by blast
  have r1: "resolve_origin (text_update (ascii ''/start'')) = Some (Reply_text, ascii ''Ana'', 77)"
    using t1 [THEN conjunct2, THEN conjunct1] by (simp add: text_update_def)
  have r2: "resolve_origin (callback_update (ascii ''return_start'')) =
      Some (Edit_text, ascii ''Ana'', 77)"
    using t2 [THEN conjunct2, THEN conjunct2, THEN conjunct1] by (simp add: callback_update_def)
  have f: "responses fixture_env ''greeting_message'' = Some (ascii ''Hola'') \<and>
      responses fixture_env ''menu_message'' = Some (ascii ''Elige'') \<and>
      format_greeting fixture_env (ascii ''Hola'') (ascii ''Ana'') ([96] @ py_str_int 77 @ [96]) =
        Inr (ascii ''Hola Ana `77`'')"
    by (simp add: fixture_env_def str_77 ascii_def)
  have s: "start fixture_env (callback_update (ascii ''return_start'')) =
     ([Log Info ''Handling /start command'', Log Info ''Chat ID: '',
       Send Edit_text (ascii ''Hola Ana `77`'') (Some ''Markdown'') None,
       Send Edit_text (ascii ''Elige'') None (Some start_keyboard)], None)"
    using t2 [THEN conjunct2, THEN conjunct2, THEN conjunct2] r2 f by blast
  from b a r1 r2 s show ?thesis by blast
qed

subsection \<open>Callback tokens outside the dispatch\<close>

text \<open>
  C9. For every callback whose token is none of the eleven tokens compared exactly and
  does not begin with \<open>category_\<close>, \<open>button\<close> answers the callback, logs the token and
  returns: it sends no message, raises nothing and leaves the chat's data as they were.
  The tokens \<open>product_\<close> followed by an identifier, which the product buttons carry, are
  such tokens.
\<close>

theorem button_unrecognized:
  "(update_callback_query u = Some query \<and> query_data query \<notin> set exact_tokens \<and>
    \<not> startswith (query_data query) (ascii ''category_'') \<longrightarrow>
      button e u cd =
        \<lparr>effects = [Answer, Log Info ''Callback data received: ''], raised = None, chat = cd\<rparr> \<and>
      \<not> list_ex is_render (effects (button e u cd))) \<and>
   (update_callback_query u = Some query \<and>
    query_data query = ascii ''product_'' @ py_str_int i \<longrightarrow>
      query_data query \<notin> set exact_tokens \<and>
      \<not> startswith (query_data query) (ascii ''category_'') \<and>
      button e u cd =
        \<lparr>effects = [Answer, Log Info ''Callback data received: ''], raised = None, chat = cd\<rparr>)"
proof -
  have a: "button e u cd =
        \<lparr>effects = [Answer, Log Info ''Callback data received: ''], raised = None, chat = cd\<rparr> \<and>
      \<not> list_ex is_render (effects (button e u cd))"
    if "update_callback_query u = Some query" "query_data query \<notin> set exact_tokens"
      "\<not> startswith (query_data query) (ascii ''category_'')"
    using that
    by (simp add: button_def exact_tokens_def finish_def and_then_def is_render_def Let_def)
  have b: "query_data query \<notin> set exact_tokens \<and>
      \<not> startswith (query_data query) (ascii ''category_'')"
    if "query_data query = ascii ''product_'' @ py_str_int i"
    using that by (simp add: exact_tokens_def startswith_def ascii_def)
  from a b show ?thesis by blast
qed


lemma str_2: "py_str_int 2 = ascii ''2''"
  by (simp add: py_str_int_def py_str_nat.simps ascii_def)

theorem button_unrecognized_witness:
  "update_callback_query (callback_update (ascii ''product_2'')) =
     Some \<lparr>query_first_name = ascii ''Ana'', query_chat_id = 77,
            query_data = ascii ''product_2''\<rparr> \<and>
   ascii ''product_2'' = ascii ''product_'' @ py_str_int 2 \<and>
   ascii ''product_2'' \<notin> set exact_tokens \<and>
   \<not> startswith (ascii ''product_2'') (ascii ''category_'') \<and>
   button fixture_env (callback_update (ascii ''product_2'')) no_chat_data =
     \<lparr>effects = [Answer, Log Info ''Callback data received: ''], raised = None,
      chat = no_chat_data\<rparr> \<and>
   \<not> list_ex is_render
       (effects (button fixture_env (callback_update (ascii ''product_2'')) no_chat_data))"
proof -
  let ?q = "\<lparr>query_first_name = ascii ''Ana'', query_chat_id = 77,
             query_data = ascii ''product_2''\<rparr>"
  note t = button_unrecognized [where u = "callback_update (ascii ''product_2'')" and query = ?q
      and i = 2 and e = fixture_env and cd = no_chat_data]
  have u: "update_callback_query (callback_update (ascii ''product_2'')) = Some ?q"
    by (simp add: callback_update_def)
  have d0: "ascii ''product_2'' = ascii ''product_'' @ py_str_int 2"
    by (simp add: str_2 ascii_def)
  then have d: "query_data ?q = ascii ''product_'' @ py_str_int 2"
    by simp
  have k0: "query_data ?q \<notin> set exact_tokens \<and>
      \<not> startswith (query_data ?q) (ascii ''category_'')"
    using t [THEN conjunct2] u d by blast
  have q: "query_data ?q = ascii ''product_2''"
    by simp
  have k: "ascii ''product_2'' \<notin> set exact_tokens \<and>
      \<not> startswith (ascii ''product_2'') (ascii ''category_'')"
    using k0 unfolding q .
  have b: "button fixture_env (callback_update (ascii ''product_2'')) no_chat_data =
     \<lparr>effects = [Answer, Log Info ''Callback data received: ''], raised = None,
      chat = no_chat_data\<rparr> \<and>
   \<not> list_ex is_render
       (effects (button fixture_env (callback_update (ascii ''product_2'')) no_chat_data))"
    using t [THEN conjunct1] u k0 by blast
  from u d0 k b show ?thesis by blast
qed

subsection \<open>Category tokens\<close>

lemma py_split_segment:
  "sep \<notin> set p \<Longrightarrow> py_split sep (p @ sep # r) = p # py_split sep r"
  by (induction p) auto

lemma py_split_hd:
  "\<exists>ws. py_split sep s = takeWhile (\<lambda>c. c \<noteq> sep) s # ws"
  by (induction s) (auto split: list.splits)

lemma category_index:
  "py_index (py_split 95 (ascii ''category_'' @ rest)) 1 = Inr (second_segment rest)"
proof -
  have "ascii ''category_'' @ rest = ascii ''category'' @ 95 # rest"
    by (simp add: ascii_def)
  moreover have "(95::nat) \<notin> set (ascii ''category'')"
    by (simp add: ascii_def)
  ultimately have "py_split 95 (ascii ''category_'' @ rest) = ascii ''category'' # py_split 95 rest"
    using py_split_segment [of 95 "ascii ''category''" rest] by simp
  moreover obtain ws where "py_split 95 rest = second_segment rest # ws"
    using py_split_hd [of 95 rest] unfolding second_segment_def by blast
  ultimately show ?thesis by (simp add: py_index_def)
qed

lemma int_digits_plain:
  "95 \<notin> set body \<Longrightarrow>
     (int_digits body acc \<noteq> None) = (body \<noteq> [] \<and> list_all (\<lambda>c. decimal_value c \<noteq> None) body)"
proof (induction body arbitrary: acc)
  case Nil
  then show ?case by simp
next
  case (Cons c cs)
  then show ?case
    by (cases cs) (auto split: option.splits)
qed

lemma strip_with_subset: "set (strip_with sp s) \<subseteq> set s"
proof -
  have "set (dropWhile sp (rev (dropWhile sp s))) \<subseteq> set (rev (dropWhile sp s))"
    by (rule set_dropWhileD [THEN subsetI])
  also have "\<dots> \<subseteq> set s"
    using set_dropWhileD [of _ sp s] by auto
  finally show ?thesis by (simp add: strip_with_def)
qed

lemma sign_body_subset:
  "set (case t of [] \<Rightarrow> [] | c # r \<Rightarrow> if c = 45 \<or> c = 43 then r else t) \<subseteq> set t"
  by (auto split: list.splits)

lemma py_int_succeeds:
  assumes "95 \<notin> set s"
  shows "(\<exists>i. py_int s = Inr i) = signed_digits (strip_with int_space s)"
proof -
  let ?t = "strip_with int_space s"
  let ?body = "case ?t of [] \<Rightarrow> [] | c # r \<Rightarrow> if c = 45 \<or> c = 43 then r else ?t"
  have "95 \<notin> set ?body"
    using assms strip_with_subset [of int_space s] sign_body_subset [of ?t] by blast
  from int_digits_plain [OF this, of 0]
  have k: "(int_digits ?body 0 \<noteq> None) = signed_digits ?t"
    by (simp add: signed_digits_def Let_def)
  have "(\<exists>i. py_int s = Inr i) = (int_digits ?body 0 \<noteq> None)"
    by (auto simp: py_int_def Let_def split: option.splits)
  with k show ?thesis by simp
qed

lemma py_int_error: "py_int s = Inl err \<Longrightarrow> err = ValueError"
  by (auto simp: py_int_def Let_def split: option.splits)

lemma ascii_digit_value: "is_ascii_digit c \<Longrightarrow> decimal_value c = Some (c - 48)"
  by (simp add: is_ascii_digit_def decimal_value_def decimal_zeros_def)

lemma ascii_digit_not_space: "is_ascii_digit c \<Longrightarrow> \<not> int_space c"
  by (auto simp: is_ascii_digit_def int_space_def is_space_def)

lemma strip_with_id: "s \<noteq> [] \<Longrightarrow> \<not> sp (hd s) \<Longrightarrow> \<not> sp (last s) \<Longrightarrow> strip_with sp s = s"
proof -
  assume a: "s \<noteq> []" "\<not> sp (hd s)" "\<not> sp (last s)"
  then have "dropWhile sp s = s" by (cases s) auto
  moreover have "dropWhile sp (rev s) = rev s"
    using a by (cases "rev s") (auto simp: last_rev [symmetric] hd_rev)
  ultimately show ?thesis by (simp add: strip_with_def)
qed


lemma sign_not_space: "\<not> int_space 45 \<and> \<not> int_space 43"
  by (simp add: int_space_def is_space_def)

lemma digits_accepted:
  "list_all is_ascii_digit body \<Longrightarrow> list_all (\<lambda>c. decimal_value c \<noteq> None) body"
  by (induction body) (simp_all add: ascii_digit_value)

lemma digits_last: "body \<noteq> [] \<Longrightarrow> list_all is_ascii_digit body \<Longrightarrow> \<not> int_space (last body)"
  by (induction body) (simp_all add: ascii_digit_not_space)

lemma literal_is_accepted:
  assumes "decimal_integer_literal s"
  shows "signed_digits (strip_with int_space s)"
proof (cases s)
  case Nil
  with assms show ?thesis by (simp add: decimal_integer_literal_def)
next
  case (Cons c r)
  show ?thesis
  proof (cases "c = 45 \<or> c = 43")
    case True
    with Cons assms have b: "r \<noteq> []" "list_all is_ascii_digit r"
      by (simp_all add: decimal_integer_literal_def)
    have n: "s \<noteq> []" using Cons by simp
    have h: "\<not> int_space (hd s)" using Cons True sign_not_space by auto
    have "last s = last r" using Cons b(1) by simp
    with digits_last [OF b] have l: "\<not> int_space (last s)" by simp
    have "signed_digits s"
      using Cons True b digits_accepted [OF b(2)] by (simp add: signed_digits_def)
    with strip_with_id [OF n h l] show ?thesis by simp
  next
    case False
    with Cons assms have b: "s \<noteq> []" "list_all is_ascii_digit s"
      by (simp_all add: decimal_integer_literal_def)
    have h: "\<not> int_space (hd s)"
      using Cons b(2) ascii_digit_not_space by simp
    have l: "\<not> int_space (last s)" by (rule digits_last [OF b])
    have "signed_digits s"
      using Cons False digits_accepted [OF b(2)] by (simp add: signed_digits_def)
    with strip_with_id [OF b(1) h l] show ?thesis by simp
  qed
qed

lemma second_segment_plain: "95 \<notin> set (second_segment rest)"
  unfolding second_segment_def using set_takeWhileD by fastforce

text \<open>
  C10, as the code has it. For every callback token \<open>category_\<close> followed by \<open>rest\<close>, the
  handler takes the second segment of the token split at underscores, which exists and is
  \<open>rest\<close> up to its first underscore, and converts it with \<open>int\<close>. The conversion succeeds
  exactly when the segment, with the whitespace around it removed, is an optional sign
  followed by one or more decimal digits; every decimal integer literal is such a segment.
  When it succeeds the handler lists the products of that category; when it fails the
  handler has answered the callback, sends nothing and raises \<open>ValueError\<close>. So the
  handler ends without an exception only for segments of that shape.
\<close>

theorem category_token_dispatch:
  assumes "update_callback_query u = Some query"
    and "query_data query = ascii ''category_'' @ rest"
  shows "startswith (query_data query) (ascii ''category_'') \<and>
     py_index (py_split 95 (query_data query)) 1 = Inr (second_segment rest) \<and>
     ((\<exists>n. py_int (second_segment rest) = Inr n) =
        signed_digits (strip_with int_space (second_segment rest))) \<and>
     (py_int (second_segment rest) = Inr i \<longrightarrow>
        button e u cd =
          finish cd (and_then [Answer, Log Info ''Callback data received: '']
                       (show_products e Edit_message_text i))) \<and>
     (\<not> signed_digits (strip_with int_space (second_segment rest)) \<longrightarrow>
        button e u cd =
          \<lparr>effects = [Answer, Log Info ''Callback data received: ''],
           raised = Some ValueError, chat = cd\<rparr>) \<and>
     (raised (button e u cd) = None \<longrightarrow>
        signed_digits (strip_with int_space (second_segment rest))) \<and>
     (decimal_integer_literal (second_segment rest) \<longrightarrow>
        (\<exists>n. py_int (second_segment rest) = Inr n))"
proof -
  let ?seg = "second_segment rest"
  note ok = py_int_succeeds [OF second_segment_plain, of rest]
  have s: "startswith (query_data query) (ascii ''category_'')"
    using assms(2) by (simp add: startswith_def)
  have m: "query_data query \<noteq> ascii ''menu''"
    using assms(2) by (simp add: ascii_def)
  have x: "py_index (py_split 95 (query_data query)) 1 = Inr ?seg"
    using assms(2) category_index [of rest] by simp
  have b: "button e u cd =
      finish cd (and_then [Answer, Log Info ''Callback data received: '']
        (case py_int ?seg of
           Inl err \<Rightarrow> ([], Some err)
         | Inr category_id \<Rightarrow> show_products e Edit_message_text category_id))"
    using assms(1) s m x by (simp add: button_def Let_def)
  have good: "button e u cd =
          finish cd (and_then [Answer, Log Info ''Callback data received: '']
                       (show_products e Edit_message_text i))"
    if "py_int ?seg = Inr i"
    using b that by simp
  have bad: "button e u cd =
          \<lparr>effects = [Answer, Log Info ''Callback data received: ''],
           raised = Some ValueError, chat = cd\<rparr>"
    if "\<not> signed_digits (strip_with int_space ?seg)"
  proof -
    from that ok have "\<not> (\<exists>n. py_int ?seg = Inr n)" by simp
    then obtain err where "py_int ?seg = Inl err" by (cases "py_int ?seg") auto
    with py_int_error [OF this] b show ?thesis
      by (simp add: finish_def and_then_def)
  qed
  have only: "signed_digits (strip_with int_space ?seg)"
    if "raised (button e u cd) = None"
  proof (rule ccontr)
    assume "\<not> signed_digits (strip_with int_space ?seg)"
    from bad [OF this] that show False by simp
  qed
  have lit: "\<exists>n. py_int ?seg = Inr n" if "decimal_integer_literal ?seg"
    using literal_is_accepted [OF that] ok by simp
  from s x ok good bad only lit show ?thesis by blast
qed


lemma py_int_1: "py_int (ascii ''1'') = Inr 1"
  by (simp add: py_int_def strip_with_def int_space_def is_space_def decimal_value_def
      decimal_zeros_def ascii_def)

lemma py_int_spaced_7: "py_int (ascii '' 7'') = Inr 7"
  by (simp add: py_int_def strip_with_def int_space_def is_space_def decimal_value_def
      decimal_zeros_def ascii_def)

lemma py_int_arabic_7: "py_int [1639] = Inr 7"
  by (simp add: py_int_def strip_with_def int_space_def is_space_def decimal_value_def
      decimal_zeros_def)

lemma abc_rejected: "\<not> signed_digits (strip_with int_space (second_segment (ascii ''abc'')))"
  by (simp add: signed_digits_def second_segment_def strip_with_def int_space_def is_space_def
      decimal_value_def decimal_zeros_def ascii_def)

theorem category_token_dispatch_witness:
  "update_callback_query (callback_update (ascii ''category_1'')) =
     Some \<lparr>query_first_name = ascii ''Ana'', query_chat_id = 77,
            query_data = ascii ''category_1''\<rparr> \<and>
   ascii ''category_1'' = ascii ''category_'' @ ascii ''1'' \<and>
   py_index (py_split 95 (ascii ''category_1'')) 1 = Inr (ascii ''1'') \<and>
   py_int (ascii ''1'') = Inr 1 \<and>
   button fixture_env (callback_update (ascii ''category_1'')) no_chat_data =
     finish no_chat_data (and_then [Answer, Log Info ''Callback data received: '']
                            (show_products fixture_env Edit_message_text 1)) \<and>
   update_callback_query (callback_update (ascii ''category_abc'')) =
     Some \<lparr>query_first_name = ascii ''Ana'', query_chat_id = 77,
            query_data = ascii ''category_abc''\<rparr> \<and>
   ascii ''category_abc'' = ascii ''category_'' @ ascii ''abc'' \<and>
   \<not> signed_digits (strip_with int_space (second_segment (ascii ''abc''))) \<and>
   button fixture_env (callback_update (ascii ''category_abc'')) no_chat_data =
     \<lparr>effects = [Answer, Log Info ''Callback data received: ''],
      raised = Some ValueError, chat = no_chat_data\<rparr>"
proof -
  let ?q1 = "\<lparr>query_first_name = ascii ''Ana'', query_chat_id = 77,
              query_data = ascii ''category_1''\<rparr>"
  let ?q2 = "\<lparr>query_first_name = ascii ''Ana'', query_chat_id = 77,
              query_data = ascii ''category_abc''\<rparr>"
  have u1: "update_callback_query (callback_update (ascii ''category_1'')) = Some ?q1"
    by (simp add: callback_update_def)
  have u2: "update_callback_query (callback_update (ascii ''category_abc'')) = Some ?q2"
    by (simp add: callback_update_def)
  have e1: "ascii ''category_1'' = ascii ''category_'' @ ascii ''1''"
    by (simp add: ascii_def)
  have e2: "ascii ''category_abc'' = ascii ''category_'' @ ascii ''abc''"
    by (simp add: ascii_def)
  have d1: "query_data ?q1 = ascii ''category_'' @ ascii ''1''"
    using e1 by simp
  have d2: "query_data ?q2 = ascii ''category_'' @ ascii ''abc''"
    using e2 by simp
  have g1: "second_segment (ascii ''1'') = ascii ''1''"
    by (simp add: second_segment_def ascii_def)
  note t1 = category_token_dispatch [OF u1 d1, where i = 1 and e = fixture_env
      and cd = no_chat_data]
  note t2 = category_token_dispatch [OF u2 d2, where e = fixture_env and cd = no_chat_data]
  have x1: "py_index (py_split 95 (ascii ''category_1'')) 1 = Inr (ascii ''1'')"
    using t1 [THEN conjunct2, THEN conjunct1] by (simp add: g1)
  have b1: "button fixture_env (callback_update (ascii ''category_1'')) no_chat_data =
     finish no_chat_data (and_then [Answer, Log Info ''Callback data received: '']
                            (show_products fixture_env Edit_message_text 1))"
    using t1 [THEN conjunct2, THEN conjunct2, THEN conjunct2, THEN conjunct1] py_int_1
    by (simp add: g1)
  have b2: "button fixture_env (callback_update (ascii ''category_abc'')) no_chat_data =
     \<lparr>effects = [Answer, Log Info ''Callback data received: ''],
      raised = Some ValueError, chat = no_chat_data\<rparr>"
    using t2 [THEN conjunct2, THEN conjunct2, THEN conjunct2, THEN conjunct2, THEN conjunct1]
      abc_rejected by blast
  from u1 e1 x1 py_int_1 b1 u2 e2 abc_rejected b2 show ?thesis by blast
qed

theorem category_token_dispatch_counterexample:
  "startswith (ascii ''category_ 7'') (ascii ''category_'') \<and>
   py_index (py_split 95 (ascii ''category_ 7'')) 1 = Inr (ascii '' 7'') \<and>
   \<not> decimal_integer_literal (ascii '' 7'') \<and>
   py_int (ascii '' 7'') = Inr 7 \<and>
   button fixture_env (callback_update (ascii ''category_ 7'')) no_chat_data =
     finish no_chat_data (and_then [Answer, Log Info ''Callback data received: '']
                            (show_products fixture_env Edit_message_text 7)) \<and>
   raised (button fixture_env (callback_update (ascii ''category_ 7'')) no_chat_data) = None \<and>
   \<not> decimal_integer_literal [1639] \<and> py_int [1639] = Inr 7"
proof -
  have s: "startswith (ascii ''category_ 7'') (ascii ''category_'')"
    by (simp add: startswith_def ascii_def)
  have "ascii ''category_ 7'' = ascii ''category_'' @ ascii '' 7''"
    by (simp add: ascii_def)
  moreover have "second_segment (ascii '' 7'') = ascii '' 7''"
    by (simp add: second_segment_def ascii_def)
  ultimately have x: "py_index (py_split 95 (ascii ''category_ 7'')) 1 = Inr (ascii '' 7'')"
    using category_index [of "ascii '' 7''"] by simp
  have l: "\<not> decimal_integer_literal (ascii '' 7'')"
    by (simp add: decimal_integer_literal_def is_ascii_digit_def ascii_def)
  have m: "ascii ''category_ 7'' \<noteq> ascii ''menu''"
    by (simp add: ascii_def)
  have b: "button fixture_env (callback_update (ascii ''category_ 7'')) no_chat_data =
     finish no_chat_data (and_then [Answer, Log Info ''Callback data received: '']
                            (show_products fixture_env Edit_message_text 7))"
    using s x m py_int_spaced_7 by (simp add: button_def callback_update_def Let_def)
  have "snd (show_products fixture_env Edit_message_text 7) = None"
    by (simp add: show_products_def products_of_category_def fixture_defs)
  with b have r: "raised (button fixture_env (callback_update (ascii ''category_ 7''))
      no_chat_data) = None"
    by (simp add: finish_def and_then_def)
  have a: "\<not> decimal_integer_literal [1639]"
    by (simp add: decimal_integer_literal_def is_ascii_digit_def)
  from s x l py_int_spaced_7 b r a py_int_arabic_7 show ?thesis by blast
qed

end
